theory Spec2Isabelle
  imports Main "HOL-Library.Sublist" "HOL-Library.AList"
begin

text \<open>
  A model of the converter of \<^verbatim>\<open>src/index.ts\<close>, from the extracted archive to the
  combined HTML document: \<open>processEpub\<close> with \<open>extractMetadata\<close>, \<open>extractManifest\<close>,
  \<open>extractSpine\<close> and \<open>processCssFiles\<close>, then \<open>createCombinedHtml\<close> with
  \<open>processFontPaths\<close>, and \<open>generatePdf\<close> and \<open>convert\<close> around them. Exceptions are
  values of a sum type. The file system is a map from paths to entries. What the
  program leaves to libraries (path arithmetic, XML and HTML parsing, HTML
  serialisation, rendering) enters every function as a record of functions; unzipping
  the archive and writing the temporary files are outside the model.
\<close>

section \<open>JavaScript strings, numbers and errors\<close>

text \<open>
  A JavaScript string is modelled as a \<open>string\<close>. The two quote characters, which are
  awkward inside a literal, get names.
\<close>

definition dq :: string where
  "dq = [CHR 0x22]"

definition sq :: string where
  "sq = [CHR 0x27]"

text \<open>\<open>s.includes(pat)\<close>, \<open>s.startsWith(pat)\<close> and \<open>s.endsWith(pat)\<close>.\<close>

definition str_includes :: "string \<Rightarrow> string \<Rightarrow> bool" where
  "str_includes s pat = sublist pat s"

definition str_startsWith :: "string \<Rightarrow> string \<Rightarrow> bool" where
  "str_startsWith s pat = prefix pat s"

definition str_endsWith :: "string \<Rightarrow> string \<Rightarrow> bool" where
  "str_endsWith s pat = suffix pat s"

text \<open>
  \<open>s.replace(pat, rep)\<close> with a string pattern: only the first occurrence is replaced.
  (The replacement texts used by the program contain no \<open>$\<close>, so no substitution
  pattern of the replacement text is involved.)
\<close>

fun str_replace :: "string \<Rightarrow> string \<Rightarrow> string \<Rightarrow> string" where
  "str_replace [] pat rep = (if pat = [] then rep else [])"
| "str_replace (c # cs) pat rep =
     (if prefix pat (c # cs) then rep @ drop (length pat) (c # cs)
      else c # str_replace cs pat rep)"

text \<open>
  A finite JavaScript number is represented by the decimal numeral that
  \<open>Number.prototype.toString\<close> prints for it: \<open>Number m k\<close> stands for \<open>m / 10 ^ k\<close>
  (\<open>Number 1 0\<close> is \<open>1\<close>, \<open>Number 5 1\<close> is \<open>0.5\<close>). \<open>numberToString\<close> is the text a
  template literal \<open>${n}\<close> produces, in the range where JavaScript uses plain positional
  notation.
\<close>

datatype number = Number int nat

function decimalDigits :: "nat \<Rightarrow> string" where
  "decimalDigits n =
     (if n < 10 then [''0123456789'' ! n]
      else decimalDigits (n div 10) @ [''0123456789'' ! (n mod 10)])"
  by pat_completeness auto
termination
  by (relation "measure (\<lambda>n. n)") auto

declare decimalDigits.simps [simp del]

definition fractionDigits :: "nat \<Rightarrow> nat \<Rightarrow> string" where
  "fractionDigits f k =
     rev (dropWhile (\<lambda>c. c = CHR ''0'')
       (rev (replicate (k - length (decimalDigits f)) (CHR ''0'') @ decimalDigits f)))"

fun numberToString :: "number \<Rightarrow> string" where
  "numberToString (Number m k) =
     (let a = nat \<bar>m\<bar>;
          frac = (if k = 0 then [] else fractionDigits (a mod 10 ^ k) k)
      in (if m < 0 then ''-'' else []) @ decimalDigits (a div 10 ^ k)
         @ (if frac = [] then [] else ''.'' @ frac))"

text \<open>
  What the program throws: \<open>Error msg\<close> is \<open>throw new Error(msg)\<close> of the program itself;
  \<open>SystemError code\<close> is a rejected file-system call (\<open>ENOENT\<close>, \<open>EISDIR\<close>);
  \<open>TypeError msg\<close> is the exception of the JavaScript runtime when a property of
  \<open>undefined\<close> is read; \<open>LibraryError msg\<close> is an exception of a parser or of the
  rendering engine.
\<close>

datatype error = Error string | SystemError string | TypeError string | LibraryError string

section \<open>The extracted package on disk\<close>

text \<open>
  The file system the converter reads: a path is absent, a regular file with its text,
  or a directory. \<open>fs.existsSync\<close> is true for files and directories alike;
  \<open>fs.readFile\<close> rejects on a directory and on an absent path; \<open>fs.copy\<close> rejects
  when its source is absent (the destination is a fresh temporary directory, whose
  contents are not modelled).
\<close>

datatype entry = File string | Directory

type_synonym filesystem = "string \<Rightarrow> entry option"

definition existsSync :: "filesystem \<Rightarrow> string \<Rightarrow> bool" where
  "existsSync files p = (files p \<noteq> None)"

definition readFile :: "filesystem \<Rightarrow> string \<Rightarrow> error + string" where
  "readFile files p =
     (case files p of
        None \<Rightarrow> Inl (SystemError ''ENOENT'')
      | Some Directory \<Rightarrow> Inl (SystemError ''EISDIR'')
      | Some (File text) \<Rightarrow> Inr text)"

definition copy :: "filesystem \<Rightarrow> string \<Rightarrow> string \<Rightarrow> error + (string \<times> string)" where
  "copy files src dest =
     (if files src = None then Inl (SystemError ''ENOENT'') else Inr (src, dest))"

section \<open>Data model\<close>

text \<open>The options as the caller passes them, and as the constructor completes them.\<close>

record EpubToPdfOptions =
  format_opt :: "string option"
  margin_opt :: "number option"
  includePageNumbers_opt :: "bool option"
  customCss_opt :: "string option"
  preserveOriginalCss_opt :: "bool option"

record options =
  format :: string
  margin :: number
  includePageNumbers :: bool
  customCss :: string
  preserveOriginalCss :: bool

definition EpubToPdf :: "EpubToPdfOptions \<Rightarrow> options" where
  "EpubToPdf opts =
     \<lparr> format = (case format_opt opts of None \<Rightarrow> ''A4'' | Some f \<Rightarrow> if f = [] then ''A4'' else f),
       margin = (case margin_opt opts of None \<Rightarrow> Number 5 1 | Some m \<Rightarrow> m),
       includePageNumbers = (case includePageNumbers_opt opts of None \<Rightarrow> True | Some b \<Rightarrow> b),
       customCss = (case customCss_opt opts of None \<Rightarrow> [] | Some c \<Rightarrow> c),
       preserveOriginalCss = (case preserveOriginalCss_opt opts of None \<Rightarrow> True | Some b \<Rightarrow> b) \<rparr>"

record EpubMetadata =
  title :: string
  creator :: string
  language :: string

record EpubManifestItem =
  m_id :: string
  m_href :: string
  m_mediaType :: string
  m_properties :: string
  m_path :: string

record EpubSpineItem =
  s_idref :: string
  s_linear :: bool
  s_href :: string
  s_path :: string

record EpubData =
  metadata :: EpubMetadata
  spine :: "EpubSpineItem list"
  manifest :: "EpubManifestItem list"
  cssContent :: string
  fontFiles :: "EpubManifestItem list"
  basePath :: string

text \<open>
  The package document as \<open>xml2js\<close> hands it over: the first \<open>dc:title\<close>, \<open>dc:creator\<close>
  and \<open>dc:language\<close> of the metadata section when present, the \<open>item\<close> elements of the
  manifest and the \<open>itemref\<close> elements of the spine, each with the attributes the program
  reads, in document order. A manifest without \<open>item\<close> elements, or a spine without
  \<open>itemref\<close> elements, is the empty list: there \<open>xml2js\<close> delivers a node that has no
  \<open>item\<close> (no \<open>itemref\<close>) property. The model covers package documents that have the
  three sections and whose elements carry the attributes \<open>id\<close>, \<open>href\<close>, \<open>media-type\<close>
  and \<open>idref\<close>; for any other document the parser of the model fails.
\<close>

record opf_item =
  a_id :: string
  a_href :: string
  a_media_type :: string
  a_properties :: "string option"

record opf_itemref =
  a_idref :: string
  a_linear :: "string option"

record opf_data =
  dc_title :: "string option"
  dc_creator :: "string option"
  dc_language :: "string option"
  manifest_item :: "opf_item list"
  spine_itemref :: "opf_itemref list"

text \<open>A parsed HTML document: the tree \<open>cheerio\<close> works on.\<close>

datatype node =
    Element string "(string \<times> string) list" "node list"
  | Text string
  | Comment string
  | Directive string

text \<open>
  The libraries the program calls, as functions: Node's \<open>path\<close> module (which depends
  on the platform), the XML parser together with the reads of the container's
  \<open>full-path\<close> attribute and of the package document's sections, the HTML parser and
  serialiser of \<open>cheerio\<close>, and the rendering engine.
\<close>

record library =
  path_join :: "string list \<Rightarrow> string"
  path_dirname :: "string \<Rightarrow> string"
  path_basename :: "string \<Rightarrow> string"
  parseContainer :: "string \<Rightarrow> error + string"
  parseOpf :: "string \<Rightarrow> error + opf_data"
  cheerio_load :: "string \<Rightarrow> node list"
  cheerio_html :: "node list \<Rightarrow> string"
  page_pdf :: "options \<Rightarrow> string \<Rightarrow> (string \<times> string) list \<Rightarrow> error + string"

section \<open>Building the package model\<close>

definition extractMetadata :: "opf_data \<Rightarrow> EpubMetadata" where
  "extractMetadata opfData =
     \<lparr> title = (case dc_title opfData of Some t \<Rightarrow> t | None \<Rightarrow> ''Untitled''),
       creator = (case dc_creator opfData of Some c \<Rightarrow> c | None \<Rightarrow> ''Unknown Author''),
       language = (case dc_language opfData of Some l \<Rightarrow> l | None \<Rightarrow> ''en'') \<rparr>"

definition manifestItem :: "library \<Rightarrow> string \<Rightarrow> opf_item \<Rightarrow> EpubManifestItem" where
  "manifestItem lib opfDir item =
     \<lparr> m_id = a_id item,
       m_href = a_href item,
       m_mediaType = a_media_type item,
       m_properties = (case a_properties item of None \<Rightarrow> [] | Some p \<Rightarrow> p),
       m_path = path_join lib [opfDir, a_href item] \<rparr>"

text \<open>
  \<open>manifestNode.item.map(...)\<close>: for a manifest without \<open>item\<close> elements
  \<open>manifestNode.item\<close> is \<open>undefined\<close>, and calling \<open>map\<close> on it throws. The same holds
  for \<open>spineNode.itemref.map(...)\<close> in \<open>extractSpine\<close>.
\<close>

definition undefinedMap :: error where
  "undefinedMap =
     TypeError (''Cannot read properties of undefined (reading '' @ sq @ ''map'' @ sq @ '')'')"

definition extractManifest ::
  "library \<Rightarrow> opf_data \<Rightarrow> string \<Rightarrow> error + EpubManifestItem list" where
  "extractManifest lib opfData opfDir =
     (if manifest_item opfData = [] then Inl undefinedMap
      else Inr (map (manifestItem lib opfDir) (manifest_item opfData)))"

text \<open>
  The callback of \<open>extractSpine\<close>: \<open>manifest.find\<close> returns the first entry with the
  id, and a missing entry throws.
\<close>

definition spineItemOf :: "EpubManifestItem list \<Rightarrow> opf_itemref \<Rightarrow> error + EpubSpineItem" where
  "spineItemOf mf itemref =
     (case find (\<lambda>item. m_id item = a_idref itemref) mf of
        None \<Rightarrow>
          Inl (Error (''Invalid EPUB: spine item '' @ a_idref itemref @ '' not found in manifest''))
      | Some found \<Rightarrow>
          Inr \<lparr> s_idref = a_idref itemref,
                s_linear = (a_linear itemref \<noteq> Some ''no''),
                s_href = m_href found,
                s_path = m_path found \<rparr>)"

text \<open>\<open>Array.prototype.map\<close> with a callback that may throw: the first throw ends it.\<close>

fun map_throwing :: "('a \<Rightarrow> error + 'b) \<Rightarrow> 'a list \<Rightarrow> error + 'b list" where
  "map_throwing f [] = Inr []"
| "map_throwing f (x # xs) =
     (case f x of
        Inl e \<Rightarrow> Inl e
      | Inr y \<Rightarrow> (case map_throwing f xs of Inl e \<Rightarrow> Inl e | Inr ys \<Rightarrow> Inr (y # ys)))"

definition extractSpine :: "opf_data \<Rightarrow> EpubManifestItem list \<Rightarrow> error + EpubSpineItem list" where
  "extractSpine opfData mf =
     (if spine_itemref opfData = [] then Inl undefinedMap
      else map_throwing (spineItemOf mf) (spine_itemref opfData))"

text \<open>The engine-generated rules that \<open>processCssFiles\<close> always appends.\<close>

definition pdfCss :: "number \<Rightarrow> string" where
  "pdfCss m =
     ''\<newline>      @page {\<newline>        margin: '' @ numberToString m
     @ ''in;\<newline>      }\<newline>      body {\<newline>        margin: 0;\<newline>        padding: 0;\<newline>      }\<newline>    ''"

text \<open>The loop over the stylesheet files: a file that does not exist is passed over.\<close>

fun readCssFiles :: "filesystem \<Rightarrow> EpubManifestItem list \<Rightarrow> string \<Rightarrow> error + string" where
  "readCssFiles files [] combinedCss = Inr combinedCss"
| "readCssFiles files (cssFile # rest) combinedCss =
     (if existsSync files (m_path cssFile) then
        (case readFile files (m_path cssFile) of
           Inl e \<Rightarrow> Inl e
         | Inr css \<Rightarrow> readCssFiles files rest (combinedCss @ css @ ''\<newline>''))
      else readCssFiles files rest combinedCss)"

definition processCssFiles ::
  "options \<Rightarrow> filesystem \<Rightarrow> EpubManifestItem list \<Rightarrow> error + string" where
  "processCssFiles opts files cssFiles =
     (case (if preserveOriginalCss opts then readCssFiles files cssFiles [] else Inr []) of
        Inl e \<Rightarrow> Inl e
      | Inr combinedCss \<Rightarrow>
          Inr ((if customCss opts \<noteq> [] then combinedCss @ customCss opts else combinedCss)
               @ pdfCss (margin opts)))"

definition isFontFile :: "EpubManifestItem \<Rightarrow> bool" where
  "isFontFile item =
     (str_includes (m_mediaType item) ''font'' \<or> str_includes (m_mediaType item) ''opentype''
      \<or> str_endsWith (m_href item) ''.ttf'' \<or> str_endsWith (m_href item) ''.otf'')"

definition processEpub :: "library \<Rightarrow> options \<Rightarrow> filesystem \<Rightarrow> string \<Rightarrow> error + EpubData" where
  "processEpub lib opts files extractPath =
     (let containerPath = path_join lib [extractPath, ''META-INF'', ''container.xml'']
      in if \<not> existsSync files containerPath
         then Inl (Error ''Invalid EPUB: container.xml not found'')
         else
           (case readFile files containerPath of
              Inl e \<Rightarrow> Inl e
            | Inr containerXml \<Rightarrow>
           (case parseContainer lib containerXml of
              Inl e \<Rightarrow> Inl e
            | Inr rootfilePath \<Rightarrow>
           (let opfPath = path_join lib [extractPath, rootfilePath]
            in if \<not> existsSync files opfPath
               then Inl (Error (''Invalid EPUB: OPF file not found at '' @ rootfilePath))
               else
                 (let opfDir = path_dirname lib opfPath
                  in (case readFile files opfPath of
                        Inl e \<Rightarrow> Inl e
                      | Inr opfXml \<Rightarrow>
                     (case parseOpf lib opfXml of
                        Inl e \<Rightarrow> Inl e
                      | Inr opfData \<Rightarrow>
                     (let md = extractMetadata opfData
                      in (case extractManifest lib opfData opfDir of
                            Inl e \<Rightarrow> Inl e
                          | Inr mf \<Rightarrow>
                         (case extractSpine opfData mf of
                            Inl e \<Rightarrow> Inl e
                          | Inr sp \<Rightarrow>
                         (case processCssFiles opts files
                                 (filter (\<lambda>item. str_includes (m_mediaType item) ''css'') mf) of
                            Inl e \<Rightarrow> Inl e
                          | Inr css \<Rightarrow>
                              Inr \<lparr> metadata = md, spine = sp, manifest = mf,
                                    cssContent = css, fontFiles = filter isFontFile mf,
                                    basePath = opfDir \<rparr>)))))))))))"

section \<open>Rewriting resource references\<close>

text \<open>
  \<open>processFontPaths\<close> replaces every match of the regular expression
  \<^verbatim>\<open>/url\(['"]?([^'")]+)['"]?\)/g\<close>. \<open>matchUrl s\<close> is the match of that expression
  at the start of \<open>s\<close>: the captured path and the text after the match. The path is the
  longest run of characters other than the two quotes and the closing parenthesis;
  no shorter run can be followed by an optional quote and \<open>)\<close>, so backtracking never
  finds another match.
\<close>

definition isQuote :: "char \<Rightarrow> bool" where
  "isQuote c = (c = CHR 0x27 \<or> c = CHR 0x22)"

definition isPathChar :: "char \<Rightarrow> bool" where
  "isPathChar c = (\<not> isQuote c \<and> c \<noteq> CHR '')'')"

definition optQuote :: "string \<Rightarrow> string" where
  "optQuote s = (case s of [] \<Rightarrow> [] | c # cs \<Rightarrow> if isQuote c then cs else c # cs)"

definition matchUrl :: "string \<Rightarrow> (string \<times> string) option" where
  "matchUrl s =
     (if prefix ''url('' s then
        (let r1 = optQuote (drop 4 s);
             fontPath = takeWhile isPathChar r1;
             r2 = optQuote (dropWhile isPathChar r1)
         in (case r2 of
               [] \<Rightarrow> None
             | c # r3 \<Rightarrow> if fontPath \<noteq> [] \<and> c = CHR '')'' then Some (fontPath, r3) else None))
      else None)"

function processFontPaths :: "library \<Rightarrow> string \<Rightarrow> string \<Rightarrow> string" where
  "processFontPaths lib [] fontDir = []"
| "processFontPaths lib (c # cs) fontDir =
     (case matchUrl (c # cs) of
        None \<Rightarrow> c # processFontPaths lib cs fontDir
      | Some (fontPath, rest) \<Rightarrow>
          ''url('' @ sq @ fontDir @ path_basename lib fontPath @ sq @ '')''
          @ processFontPaths lib rest fontDir)"
  by pat_completeness auto
termination
proof (relation "measure (\<lambda>(lib, css, fontDir). length css)")
  show "wf (measure (\<lambda>(lib, css, fontDir). length css))"
    by simp
next
  fix lib :: library and c :: char and cs fontDir :: string
  show "((lib, cs, fontDir), (lib, c # cs, fontDir)) \<in> measure (\<lambda>(lib, css, fontDir). length css)"
    by simp
next
  fix lib :: library and c :: char and cs fontDir :: string
    and x2 :: "string \<times> string" and fontPath rest :: string
  assume m: "matchUrl (c # cs) = Some x2" and x: "(fontPath, rest) = x2"
  have q: "length (optQuote s) \<le> length s" for s
    by (cases s) (simp_all add: optQuote_def)
  let ?r1 = "optQuote (drop 4 (c # cs))"
  let ?r2 = "optQuote (dropWhile isPathChar ?r1)"
  from m x have "?r2 \<noteq> [] \<and> rest = tl ?r2"
    by (auto simp: matchUrl_def Let_def split: if_splits list.splits)
  then have "length rest < length ?r2"
    by (cases ?r2) simp_all
  also have "\<dots> \<le> length (dropWhile isPathChar ?r1)"
    by (rule q)
  also have "\<dots> \<le> length ?r1"
    by (rule length_dropWhile_le)
  also have "\<dots> \<le> length (drop 4 (c # cs))"
    by (rule q)
  also have "\<dots> \<le> length (c # cs)"
    by simp
  finally show "((lib, rest, fontDir), (lib, c # cs, fontDir))
      \<in> measure (\<lambda>(lib, css, fontDir). length css)"
    by simp
qed

text \<open>
  The references the expression is written for: \<open>url(\<close>, an optional quote, a
  non-empty path free of quotes and of \<open>)\<close>, an optional quote, \<open>)\<close>, with nothing in
  between.
\<close>

definition urlRef :: "string \<Rightarrow> string \<Rightarrow> string \<Rightarrow> string" where
  "urlRef q1 p q2 = ''url('' @ q1 @ p @ q2 @ '')''"

definition isUrlRef :: "string \<Rightarrow> string \<Rightarrow> string \<Rightarrow> bool" where
  "isUrlRef q1 p q2 =
     (q1 \<in> {[], sq, dq} \<and> q2 \<in> {[], sq, dq} \<and> p \<noteq> [] \<and> list_all isPathChar p)"

text \<open>
  The two passes over the \<open>img\<close> elements. The pass over one content document gives
  every \<open>img\<close> with a non-empty \<open>src\<close> the source \<open>assets/\<close> plus the basename; the pass
  over the combined document does so only when the source does not start with
  \<open>assets/\<close> already.
\<close>

definition attr :: "(string \<times> string) list \<Rightarrow> string \<Rightarrow> string option" where
  "attr attrs name = map_of attrs name"

definition fixSrc :: "library \<Rightarrow> (string \<times> string) list \<Rightarrow> (string \<times> string) list" where
  "fixSrc lib attrs =
     (case attr attrs ''src'' of
        None \<Rightarrow> attrs
      | Some src \<Rightarrow>
          if src \<noteq> [] then AList.update ''src'' (''assets/'' @ path_basename lib src) attrs
          else attrs)"

definition fixSrcCombined :: "library \<Rightarrow> (string \<times> string) list \<Rightarrow> (string \<times> string) list" where
  "fixSrcCombined lib attrs =
     (case attr attrs ''src'' of
        None \<Rightarrow> attrs
      | Some src \<Rightarrow>
          if src \<noteq> [] \<and> \<not> str_startsWith src ''assets/''
          then AList.update ''src'' (''assets/'' @ path_basename lib src) attrs
          else attrs)"

fun fixImagePaths :: "library \<Rightarrow> node \<Rightarrow> node" where
  "fixImagePaths lib (Element name attrs children) =
     Element name (if name = ''img'' then fixSrc lib attrs else attrs)
       (map (fixImagePaths lib) children)"
| "fixImagePaths lib (Text t) = Text t"
| "fixImagePaths lib (Comment t) = Comment t"
| "fixImagePaths lib (Directive t) = Directive t"

fun fixImagePathsCombined :: "library \<Rightarrow> node \<Rightarrow> node" where
  "fixImagePathsCombined lib (Element name attrs children) =
     Element name (if name = ''img'' then fixSrcCombined lib attrs else attrs)
       (map (fixImagePathsCombined lib) children)"
| "fixImagePathsCombined lib (Text t) = Text t"
| "fixImagePathsCombined lib (Comment t) = Comment t"
| "fixImagePathsCombined lib (Directive t) = Directive t"

text \<open>\<open>$(name)\<close>: the elements with that name, in document order.\<close>

fun select :: "string \<Rightarrow> node \<Rightarrow> node list" where
  "select name (Element n attrs children) =
     (if n = name then [Element n attrs children] else []) @ concat (map (select name) children)"
| "select name (Text t) = []"
| "select name (Comment t) = []"
| "select name (Directive t) = []"

text \<open>\<open>$('body').html() || ''\<close>: the serialised children of the first \<open>body\<close> element.\<close>

definition bodyHtml :: "library \<Rightarrow> node list \<Rightarrow> string" where
  "bodyHtml lib doc =
     (case concat (map (select ''body'') doc) of
        Element n attrs children # others \<Rightarrow> cheerio_html lib children
      | _ \<Rightarrow> [])"

text \<open>The \<open>src\<close> attributes of the \<open>img\<close> elements of a document, in document order.\<close>

fun imgSources :: "node \<Rightarrow> string list" where
  "imgSources (Element name attrs children) =
     (if name = ''img'' then (case attr attrs ''src'' of None \<Rightarrow> [] | Some src \<Rightarrow> [src]) else [])
     @ concat (map imgSources children)"
| "imgSources (Text t) = []"
| "imgSources (Comment t) = []"
| "imgSources (Directive t) = []"

section \<open>Assembling the document\<close>

definition htmlShell :: "library \<Rightarrow> EpubData \<Rightarrow> string" where
  "htmlShell lib epubData =
     ''<!DOCTYPE html>\<newline><html>\<newline><head>\<newline>  <meta charset='' @ dq @ ''UTF-8'' @ dq
     @ ''>\<newline>  <title>'' @ title (metadata epubData)
     @ ''</title>\<newline>  <style>\<newline>    ''
     @ processFontPaths lib (cssContent epubData) ''assets/''
     @ ''\<newline>  </style>\<newline></head>\<newline><body>''"

definition pageBreak :: string where
  "pageBreak = ''<div class='' @ dq @ ''page-break'' @ dq @ ''></div>''"

definition pageBreakCss :: string where
  "pageBreakCss = ''\<newline>  .page-break {\<newline>    page-break-after: always;\<newline>  }\<newline></style>''"

text \<open>The body content of one content document, after its image paths are fixed.\<close>

definition bodyContent :: "library \<Rightarrow> string \<Rightarrow> string" where
  "bodyContent lib content = bodyHtml lib (map (fixImagePaths lib) (cheerio_load lib content))"

text \<open>The loop over the spine of \<open>createCombinedHtml\<close>, with the document text so far.\<close>

fun addContent :: "library \<Rightarrow> filesystem \<Rightarrow> EpubSpineItem list \<Rightarrow> string \<Rightarrow> error + string" where
  "addContent lib files [] html = Inr html"
| "addContent lib files (item # rest) html =
     (if s_linear item \<and> existsSync files (s_path item) then
        (case readFile files (s_path item) of
           Inl e \<Rightarrow> Inl e
         | Inr content \<Rightarrow>
             addContent lib files rest
               ((if str_includes html ''</section>'' then html @ pageBreak else html)
                @ bodyContent lib content))
      else addContent lib files rest html)"

definition copyAsset ::
  "library \<Rightarrow> filesystem \<Rightarrow> string \<Rightarrow> EpubManifestItem \<Rightarrow> error + (string \<times> string)" where
  "copyAsset lib files assetsDir item =
     copy files (m_path item) (path_join lib [assetsDir, path_basename lib (m_href item)])"

text \<open>The combined document before the last pass over its images.\<close>

definition combinedHtml :: "string \<Rightarrow> string" where
  "combinedHtml html = str_replace (html @ ''</body></html>'') ''</style>'' pageBreakCss"

record CombinedHtml =
  htmlPath :: string
  htmlText :: string
  copied :: "(string \<times> string) list"

text \<open>
  \<open>tempDir\<close> is the fresh directory \<open>tmpPromise\<close> creates; the result carries the path of
  the written file, its text, and the copies made into the assets directory.
\<close>

definition createCombinedHtml ::
  "library \<Rightarrow> filesystem \<Rightarrow> string \<Rightarrow> EpubData \<Rightarrow> error + CombinedHtml" where
  "createCombinedHtml lib files tempDir epubData =
     (let assetsDir = path_join lib [tempDir, ''assets'']
      in (case map_throwing (copyAsset lib files assetsDir) (fontFiles epubData) of
            Inl e \<Rightarrow> Inl e
          | Inr fonts \<Rightarrow>
         (case map_throwing (copyAsset lib files assetsDir)
                 (filter (\<lambda>item. str_startsWith (m_mediaType item) ''image/'')
                    (manifest epubData)) of
            Inl e \<Rightarrow> Inl e
          | Inr images \<Rightarrow>
         (case addContent lib files (spine epubData) (htmlShell lib epubData) of
            Inl e \<Rightarrow> Inl e
          | Inr html \<Rightarrow>
              Inr \<lparr> htmlPath = path_join lib [tempDir, ''combined.html''],
                    htmlText =
                      cheerio_html lib
                        (map (fixImagePathsCombined lib) (cheerio_load lib (combinedHtml html))),
                    copied = fonts @ images \<rparr>))))"

definition generatePdf ::
  "library \<Rightarrow> options \<Rightarrow> filesystem \<Rightarrow> string \<Rightarrow> EpubData \<Rightarrow> error + string" where
  "generatePdf lib opts files tempDir epubData =
     (case createCombinedHtml lib files tempDir epubData of
        Inl e \<Rightarrow> Inl e
      | Inr combined \<Rightarrow> page_pdf lib opts (htmlText combined) (copied combined))"

text \<open>
  \<open>convert\<close>, from the extracted archive on: \<open>extractPath\<close> is the directory the archive
  was extracted to, \<open>tempDir\<close> the one the combined document is written to.
\<close>

definition convert ::
  "library \<Rightarrow> options \<Rightarrow> filesystem \<Rightarrow> string \<Rightarrow> string \<Rightarrow> error + string" where
  "convert lib opts files extractPath tempDir =
     (case processEpub lib opts files extractPath of
        Inl e \<Rightarrow> Inl e
      | Inr epubData \<Rightarrow> generatePdf lib opts files tempDir epubData)"

text \<open>
  For stating what the loop over the spine appends: the spine items it does not pass
  over, the text of a file, and the body contents of those items in spine order.
\<close>

definition appendedItems :: "filesystem \<Rightarrow> EpubSpineItem list \<Rightarrow> EpubSpineItem list" where
  "appendedItems files sp = filter (\<lambda>s. s_linear s \<and> existsSync files (s_path s)) sp"

definition fileText :: "filesystem \<Rightarrow> string \<Rightarrow> string" where
  "fileText files p = (case files p of Some (File t) \<Rightarrow> t | _ \<Rightarrow> [])"

definition appendedBodies :: "library \<Rightarrow> filesystem \<Rightarrow> EpubSpineItem list \<Rightarrow> string list" where
  "appendedBodies lib files sp =
     map (\<lambda>s. bodyContent lib (fileText files (s_path s))) (appendedItems files sp)"

definition documentImgSources :: "node list \<Rightarrow> string list" where
  "documentImgSources doc = concat (map imgSources doc)"

section \<open>A POSIX platform and example packages\<close>

text \<open>
  The functions of Node's \<open>path\<close> module on a POSIX platform, for evaluating the
  program on examples.
\<close>

definition posix_basename :: "string \<Rightarrow> string" where
  "posix_basename p =
     rev (takeWhile (\<lambda>c. c \<noteq> CHR ''/'') (dropWhile (\<lambda>c. c = CHR ''/'') (rev p)))"

fun splitPath :: "string \<Rightarrow> string list" where
  "splitPath [] = [[]]"
| "splitPath (c # cs) =
     (if c = CHR ''/'' then [] # splitPath cs
      else (case splitPath cs of [] \<Rightarrow> [[c]] | s # ss \<Rightarrow> (c # s) # ss))"

fun joinPath :: "string list \<Rightarrow> string" where
  "joinPath [] = []"
| "joinPath [s] = s"
| "joinPath (s # t # ts) = s @ ''/'' @ joinPath (t # ts)"

fun normalizeSegments :: "bool \<Rightarrow> string list \<Rightarrow> string list \<Rightarrow> string list" where
  "normalizeSegments allowAboveRoot [] res = rev res"
| "normalizeSegments allowAboveRoot (s # ss) res =
     (if s = [] \<or> s = ''.'' then normalizeSegments allowAboveRoot ss res
      else if s = ''..'' then
        (case res of
           [] \<Rightarrow> normalizeSegments allowAboveRoot ss (if allowAboveRoot then [''..''] else [])
         | t # ts \<Rightarrow>
             if t \<noteq> ''..'' then normalizeSegments allowAboveRoot ss ts
             else normalizeSegments allowAboveRoot ss (if allowAboveRoot then ''..'' # res else res))
      else normalizeSegments allowAboveRoot ss (s # res))"

definition posix_normalize :: "string \<Rightarrow> string" where
  "posix_normalize p =
     (if p = [] then ''.''
      else
        (let isAbsolute = (hd p = CHR ''/'');
             trailingSeparator = (last p = CHR ''/'');
             q = joinPath (normalizeSegments (\<not> isAbsolute) (splitPath p) [])
         in if q = [] then (if isAbsolute then ''/'' else if trailingSeparator then ''./'' else ''.'')
            else (if isAbsolute then ''/'' else []) @ q @ (if trailingSeparator then ''/'' else [])))"

definition posix_join :: "string list \<Rightarrow> string" where
  "posix_join args =
     (let joined = joinPath (filter (\<lambda>a. a \<noteq> []) args)
      in if joined = [] then ''.'' else posix_normalize joined)"

definition posix_dirname :: "string \<Rightarrow> string" where
  "posix_dirname p =
     (if p = [] then ''.''
      else
        (let hasRoot = (hd p = CHR ''/'');
             r = dropWhile (\<lambda>c. c \<noteq> CHR ''/'') (dropWhile (\<lambda>c. c = CHR ''/'') (rev (tl p)))
         in if r = [] then (if hasRoot then ''/'' else ''.'')
            else if hasRoot \<and> length r = 1 then ''//''
            else take (length r) p))"

text \<open>
  The text of a container file and of a package document with given contents, and the
  serialisation of a document tree whose texts and attribute values need no escaping.
\<close>

definition quoted :: "string \<Rightarrow> string" where
  "quoted s = dq @ s @ dq"

definition printContainer :: "string \<Rightarrow> string" where
  "printContainer rootfilePath =
     ''<container><rootfiles><rootfile full-path='' @ quoted rootfilePath
     @ ''/></rootfiles></container>''"

definition printElement :: "string \<Rightarrow> string option \<Rightarrow> string" where
  "printElement name body =
     (case body of None \<Rightarrow> [] | Some t \<Rightarrow> ''<'' @ name @ ''>'' @ t @ ''</'' @ name @ ''>'')"

definition printItem :: "opf_item \<Rightarrow> string" where
  "printItem item =
     ''<item id='' @ quoted (a_id item) @ '' href='' @ quoted (a_href item)
     @ '' media-type='' @ quoted (a_media_type item)
     @ (case a_properties item of None \<Rightarrow> [] | Some p \<Rightarrow> '' properties='' @ quoted p)
     @ ''/>''"

definition printItemref :: "opf_itemref \<Rightarrow> string" where
  "printItemref itemref =
     ''<itemref idref='' @ quoted (a_idref itemref)
     @ (case a_linear itemref of None \<Rightarrow> [] | Some l \<Rightarrow> '' linear='' @ quoted l)
     @ ''/>''"

definition printOpf :: "opf_data \<Rightarrow> string" where
  "printOpf d =
     ''<package><metadata>'' @ printElement ''dc:title'' (dc_title d)
     @ printElement ''dc:creator'' (dc_creator d) @ printElement ''dc:language'' (dc_language d)
     @ ''</metadata><manifest>'' @ concat (map printItem (manifest_item d))
     @ ''</manifest><spine>'' @ concat (map printItemref (spine_itemref d))
     @ ''</spine></package>''"

fun serialize :: "node \<Rightarrow> string" where
  "serialize (Element name attrs children) =
     ''<'' @ name @ concat (map (\<lambda>(k, v). '' '' @ k @ ''='' @ quoted v) attrs) @ ''>''
     @ (if name \<in> set [''img'', ''meta'', ''br'', ''hr'', ''link''] then []
        else concat (map serialize children) @ ''</'' @ name @ ''>'')"
| "serialize (Text t) = t"
| "serialize (Comment t) = ''<!--'' @ t @ ''-->''"
| "serialize (Directive t) = ''<'' @ t @ ''>''"

definition htmlDocument :: "node list \<Rightarrow> node list" where
  "htmlDocument body = [Element ''html'' [] [Element ''head'' [] [], Element ''body'' [] body]]"

definition textOf :: "node list \<Rightarrow> string" where
  "textOf doc = concat (map serialize doc)"

definition item :: "string \<Rightarrow> string \<Rightarrow> string \<Rightarrow> opf_item" where
  "item i h m = \<lparr> a_id = i, a_href = h, a_media_type = m, a_properties = None \<rparr>"

definition itemref :: "string \<Rightarrow> string option \<Rightarrow> opf_itemref" where
  "itemref i l = \<lparr> a_idref = i, a_linear = l \<rparr>"

definition package :: "opf_item list \<Rightarrow> opf_itemref list \<Rightarrow> opf_data" where
  "package items refs =
     \<lparr> dc_title = Some ''Demo'', dc_creator = None, dc_language = None,
       manifest_item = items, spine_itemref = refs \<rparr>"

definition packageFiles :: "opf_data \<Rightarrow> (string \<times> entry) list \<Rightarrow> filesystem" where
  "packageFiles d others =
     map_of ([(''/e/META-INF/container.xml'', File (printContainer ''OEBPS/content.opf'')),
              (''/e/OEBPS/content.opf'', File (printOpf d))] @ others)"

definition xhtml :: string where
  "xhtml = ''application/xhtml+xml''"

text \<open>
  The book of the scenario: chapter one, notes outside the reading order, chapter two,
  and one image. \<open>gapOpf\<close> is the same book with one more chapter, whose file is
  missing from the archive.
\<close>

definition ch1Doc :: "node list" where
  "ch1Doc = htmlDocument [Element ''p'' [] [Text ''One''],
                          Element ''img'' [(''src'', ''../images/a.png'')] []]"

definition notesDoc :: "node list" where
  "notesDoc = htmlDocument [Element ''p'' [] [Text ''Note'']]"

definition ch2Doc :: "node list" where
  "ch2Doc = htmlDocument [Element ''p'' [] [Text ''Two'']]"

definition bookOpf :: opf_data where
  "bookOpf =
     package
       [item ''ch1'' ''ch1.xhtml'' xhtml, item ''notes'' ''notes.xhtml'' xhtml,
        item ''ch2'' ''ch2.xhtml'' xhtml, item ''pic'' ''images/a.png'' ''image/png'']
       [itemref ''ch1'' None, itemref ''notes'' (Some ''no''), itemref ''ch2'' None]"

definition gapOpf :: opf_data where
  "gapOpf =
     package
       [item ''ch1'' ''ch1.xhtml'' xhtml, item ''notes'' ''notes.xhtml'' xhtml,
        item ''gone'' ''gone.xhtml'' xhtml, item ''ch2'' ''ch2.xhtml'' xhtml]
       [itemref ''ch1'' None, itemref ''notes'' (Some ''no''), itemref ''gone'' None,
        itemref ''ch2'' None]"

definition bookEntries :: "(string \<times> entry) list" where
  "bookEntries =
     [(''/e/OEBPS/ch1.xhtml'', File (textOf ch1Doc)),
      (''/e/OEBPS/notes.xhtml'', File (textOf notesDoc)),
      (''/e/OEBPS/ch2.xhtml'', File (textOf ch2Doc)),
      (''/e/OEBPS/images/a.png'', File ''PNG'')]"

text \<open>
  The combined document of the book before the last pass over its images, and the
  tree the HTML parser builds from it.
\<close>

definition bookStyle :: string where
  "bookStyle =
     ''\<newline>    \<newline>      @page {\<newline>        margin: 0.5in;\<newline>      }\<newline>      body {\<newline>        margin: 0;\<newline>        padding: 0;\<newline>      }\<newline>    \<newline>  \<newline>  .page-break {\<newline>    page-break-after: always;\<newline>  }\<newline>''"

definition bookBody :: string where
  "bookBody = ''<p>One</p><img src='' @ dq @ ''assets/a.png'' @ dq @ ''><p>Two</p>''"

definition bookCombinedText :: string where
  "bookCombinedText =
     ''<!DOCTYPE html>\<newline><html>\<newline><head>\<newline>  <meta charset='' @ dq @ ''UTF-8'' @ dq
     @ ''>\<newline>  <title>Demo</title>\<newline>  <style>'' @ bookStyle
     @ ''</style>\<newline></head>\<newline><body>'' @ bookBody @ ''</body></html>''"

definition bookCombinedDoc :: "node list" where
  "bookCombinedDoc =
     [Directive ''!DOCTYPE html'',
      Element ''html'' []
        [Element ''head'' []
           [Text ''\<newline>  '', Element ''meta'' [(''charset'', ''UTF-8'')] [],
            Text ''\<newline>  '', Element ''title'' [] [Text ''Demo''],
            Text ''\<newline>  '', Element ''style'' [] [Text bookStyle], Text ''\<newline>''],
         Text ''\<newline>'',
         Element ''body'' []
           [Element ''p'' [] [Text ''One''], Element ''img'' [(''src'', ''assets/a.png'')] [],
            Element ''p'' [] [Text ''Two'']]]]"

text \<open>A package whose manifest declares the id \<open>f1\<close> twice.\<close>

definition twinsOpf :: opf_data where
  "twinsOpf =
     package [item ''f1'' ''a.xhtml'' xhtml, item ''f1'' ''b.xhtml'' xhtml] [itemref ''f1'' None]"

text \<open>A package whose spine names an id the manifest does not declare.\<close>

definition brokenOpf :: opf_data where
  "brokenOpf =
     package [item ''ch1'' ''ch1.xhtml'' xhtml] [itemref ''ch1'' None, itemref ''missing'' None]"

text \<open>
  A package whose only content item has an empty \<open>href\<close>: its path is the directory of
  the package document.
\<close>

definition folderOpf :: opf_data where
  "folderOpf = package [item ''d'' [] xhtml] [itemref ''d'' None]"

definition folderEntries :: "(string \<times> entry) list" where
  "folderEntries = [(''/e/OEBPS'', Directory)]"

text \<open>
  A package whose manifest has no \<open>item\<close> element, and one with the id \<open>f1\<close> declared
  twice whose spine has no \<open>itemref\<close> element.
\<close>

definition bareOpf :: opf_data where
  "bareOpf = package [] [itemref ''missing'' None]"

definition spinelessOpf :: opf_data where
  "spinelessOpf = package [item ''f1'' ''a.xhtml'' xhtml, item ''f1'' ''b.xhtml'' xhtml] []"

text \<open>
  The example library: the POSIX path functions, an XML parser that knows the example
  package documents by their text, an HTML parser that knows the example documents by
  their text (a text it does not know is taken as character data of the body, which is
  what the parser does with text free of markup), the serialiser above, and a rendering
  engine that accepts every document.
\<close>

definition exampleLibrary :: library where
  "exampleLibrary =
     \<lparr> path_join = posix_join,
       path_dirname = posix_dirname,
       path_basename = posix_basename,
       parseContainer = (\<lambda>xml.
         if xml = printContainer ''OEBPS/content.opf'' then Inr ''OEBPS/content.opf''
         else Inl (LibraryError ''container'')),
       parseOpf = (\<lambda>xml.
         case find (\<lambda>d. printOpf d = xml) [bookOpf, gapOpf, twinsOpf, brokenOpf, folderOpf, bareOpf, spinelessOpf] of
           None \<Rightarrow> Inl (LibraryError ''package'')
         | Some d \<Rightarrow> Inr d),
       cheerio_load = (\<lambda>html.
         case map_of [(textOf ch1Doc, ch1Doc), (textOf notesDoc, notesDoc),
                      (textOf ch2Doc, ch2Doc), (bookCombinedText, bookCombinedDoc)] html of
           None \<Rightarrow> htmlDocument [Text html]
         | Some d \<Rightarrow> d),
       cheerio_html = textOf,
       page_pdf = (\<lambda>opts html assets. Inr (''%PDF '' @ html)) \<rparr>"

text \<open>The package models of the two books, as \<open>processEpub\<close> builds them.\<close>

definition manifestEntry :: "string \<Rightarrow> string \<Rightarrow> string \<Rightarrow> EpubManifestItem" where
  "manifestEntry i h m =
     \<lparr> m_id = i, m_href = h, m_mediaType = m, m_properties = [], m_path = ''/e/OEBPS/'' @ h \<rparr>"

definition spineEntry :: "string \<Rightarrow> bool \<Rightarrow> string \<Rightarrow> EpubSpineItem" where
  "spineEntry i l h = \<lparr> s_idref = i, s_linear = l, s_href = h, s_path = ''/e/OEBPS/'' @ h \<rparr>"

definition exampleData :: "EpubManifestItem list \<Rightarrow> EpubSpineItem list \<Rightarrow> EpubData" where
  "exampleData mf sp =
     \<lparr> metadata = \<lparr> title = ''Demo'', creator = ''Unknown Author'', language = ''en'' \<rparr>,
       spine = sp, manifest = mf,
       cssContent = ''\<newline>      @page {\<newline>        margin: 0.5in;\<newline>      }\<newline>      body {\<newline>        margin: 0;\<newline>        padding: 0;\<newline>      }\<newline>    '',
       fontFiles = [], basePath = ''/e/OEBPS'' \<rparr>"

definition bookData :: EpubData where
  "bookData =
     exampleData
       [manifestEntry ''ch1'' ''ch1.xhtml'' xhtml, manifestEntry ''notes'' ''notes.xhtml'' xhtml,
        manifestEntry ''ch2'' ''ch2.xhtml'' xhtml, manifestEntry ''pic'' ''images/a.png'' ''image/png'']
       [spineEntry ''ch1'' True ''ch1.xhtml'', spineEntry ''notes'' False ''notes.xhtml'',
        spineEntry ''ch2'' True ''ch2.xhtml'']"

definition gapData :: EpubData where
  "gapData =
     exampleData
       [manifestEntry ''ch1'' ''ch1.xhtml'' xhtml, manifestEntry ''notes'' ''notes.xhtml'' xhtml,
        manifestEntry ''gone'' ''gone.xhtml'' xhtml, manifestEntry ''ch2'' ''ch2.xhtml'' xhtml]
       [spineEntry ''ch1'' True ''ch1.xhtml'', spineEntry ''notes'' False ''notes.xhtml'',
        spineEntry ''gone'' True ''gone.xhtml'', spineEntry ''ch2'' True ''ch2.xhtml'']"

definition folderData :: EpubData where
  "folderData =
     exampleData
       [\<lparr> m_id = ''d'', m_href = [], m_mediaType = xhtml, m_properties = [],
          m_path = ''/e/OEBPS'' \<rparr>]
       [\<lparr> s_idref = ''d'', s_linear = True, s_href = [], s_path = ''/e/OEBPS'' \<rparr>]"

definition defaultOptions :: options where
  "defaultOptions =
     EpubToPdf \<lparr> format_opt = None, margin_opt = None, includePageNumbers_opt = None,
                 customCss_opt = None, preserveOriginalCss_opt = None \<rparr>"

section \<open>Replacing the first occurrence\<close>

lemma drop_within: "n \<le> length xs \<Longrightarrow> drop n (xs @ ys) = drop n xs @ ys"
  by simp

lemma str_replace_here: "str_replace (pat @ y) pat rep = rep @ y"
proof (cases pat)
  case Nil
  then show ?thesis by (cases y) simp_all
next
  case (Cons p ps)
  then show ?thesis by simp
qed

lemma str_replace_append:
  "sublist pat a \<Longrightarrow> str_replace (a @ b) pat rep = str_replace a pat rep @ b"
proof (induction a)
  case Nil
  then show ?case using str_replace_here[of "[]" b rep] by simp
next
  case (Cons c cs)
  show ?case
  proof (cases "prefix pat (c # cs)")
    case True
    then have p: "prefix pat (c # cs @ b)"
      by (metis append_Cons prefix_prefix)
    from True have "length pat \<le> length (c # cs)"
      by (rule prefix_length_le)
    then have d: "drop (length pat) ((c # cs) @ b) = drop (length pat) (c # cs) @ b"
      by (rule drop_within)
    have "str_replace ((c # cs) @ b) pat rep = rep @ drop (length pat) ((c # cs) @ b)"
      using p by (simp only: append_Cons str_replace.simps if_True)
    moreover have "str_replace (c # cs) pat rep = rep @ drop (length pat) (c # cs)"
      using True by (simp only: str_replace.simps if_True)
    ultimately show ?thesis
      by (simp only: d append_assoc)
  next
    case False
    with Cons.prems have sub: "sublist pat cs"
      by (simp add: sublist_Cons_right)
    then have "length pat \<le> length cs"
      by (rule sublist_length_le)
    have "\<not> prefix pat (c # cs @ b)"
    proof
      assume "prefix pat (c # cs @ b)"
      then have "prefix pat ((c # cs) @ b)" by simp
      then have "prefix pat (c # cs) \<or> (\<exists>us. pat = (c # cs) @ us \<and> prefix us b)"
        by (simp only: prefix_append)
      with False obtain us where "pat = (c # cs) @ us" by blast
      with \<open>length pat \<le> length cs\<close> show False by simp
    qed
    with False Cons.IH[OF sub] show ?thesis by simp
  qed
qed

lemma str_replace_no_straddle:
  assumes "\<not> sublist (p # ps) t" and "p \<notin> set ps"
  shows "str_replace (t @ p # rest) (p # ps) rep = t @ str_replace (p # rest) (p # ps) rep"
  using assms(1)
proof (induction t)
  case Nil
  then show ?case by simp
next
  case (Cons c cs)
  from Cons.prems have np: "\<not> prefix (p # ps) (c # cs)" and ns: "\<not> sublist (p # ps) cs"
    by (simp_all add: sublist_Cons_right)
  have "\<not> prefix (p # ps) ((c # cs) @ p # rest)"
  proof
    assume "prefix (p # ps) ((c # cs) @ p # rest)"
    then have "prefix (p # ps) (c # cs) \<or> (\<exists>us. p # ps = (c # cs) @ us \<and> prefix us (p # rest))"
      by (simp only: prefix_append)
    with np obtain us where us: "p # ps = (c # cs) @ us" "prefix us (p # rest)" by blast
    show False
    proof (cases us)
      case Nil
      with us np show False by simp
    next
      case (Cons u us')
      with us(2) have "u = p" by simp
      with Cons us(1) have "p \<in> set ps" by auto
      with assms(2) show False by simp
    qed
  qed
  then have "str_replace ((c # cs) @ p # rest) (p # ps) rep
             = c # str_replace (cs @ p # rest) (p # ps) rep"
    by (simp only: append_Cons str_replace.simps if_False)
  with Cons.IH[OF ns] show ?case by (simp only: append_Cons)
qed

section \<open>Facts about the example package\<close>






lemma book_processEpub:
  "processEpub exampleLibrary defaultOptions (packageFiles bookOpf bookEntries) ''/e'' = Inr bookData"
  by code_simp

lemma gap_processEpub:
  "processEpub exampleLibrary defaultOptions (packageFiles gapOpf bookEntries) ''/e'' = Inr gapData"
  by code_simp

lemma book_createCombinedHtml:
  "createCombinedHtml exampleLibrary (packageFiles bookOpf bookEntries) ''/t'' bookData
   = Inr \<lparr> htmlPath = ''/t/combined.html'',
           htmlText = textOf bookCombinedDoc,
           copied = [(''/e/OEBPS/images/a.png'', ''/t/assets/a.png'')] \<rparr>"
  by code_simp

lemma gap_createCombinedHtml:
  "createCombinedHtml exampleLibrary (packageFiles gapOpf bookEntries) ''/t'' gapData
   = Inr \<lparr> htmlPath = ''/t/combined.html'',
           htmlText = textOf bookCombinedDoc,
           copied = [] \<rparr>"
  by code_simp

lemma book_bodies:
  "appendedBodies exampleLibrary (packageFiles bookOpf bookEntries) (spine bookData)
   = [''<p>One</p><img src='' @ dq @ ''assets/a.png'' @ dq @ ''>'', ''<p>Two</p>'']"
  by code_simp

section \<open>The spine\<close>

lemma map_throwing_all_ok:
  "(\<And>x. x \<in> set xs \<Longrightarrow> \<exists>y. f x = Inr y) \<Longrightarrow>
   \<exists>ys. map_throwing f xs = Inr ys \<and> length ys = length xs"
proof (induction xs)
  case Nil
  then show ?case by simp
next
  case (Cons x xs)
  from Cons.prems obtain y where y: "f x = Inr y" by auto
  from Cons obtain ys where "map_throwing f xs = Inr ys" "length ys = length xs" by auto
  with y show ?case by simp
qed











section \<open>The aggregated stylesheet\<close>

lemma pdfCss_half:
  "pdfCss (Number 5 1) = ''\<newline>      @page {\<newline>        margin: 0.5in;\<newline>      }\<newline>      body {\<newline>        margin: 0;\<newline>        padding: 0;\<newline>      }\<newline>    ''"
  by code_simp

lemma pdfCss_one:
  "pdfCss (Number 1 0) = ''\<newline>      @page {\<newline>        margin: 1in;\<newline>      }\<newline>      body {\<newline>        margin: 0;\<newline>        padding: 0;\<newline>      }\<newline>    ''"
  by code_simp

lemma processFontPaths_one:
  "processFontPaths lib ''\<newline>      @page {\<newline>        margin: 1in;\<newline>      }\<newline>      body {\<newline>        margin: 0;\<newline>        padding: 0;\<newline>      }\<newline>    '' fontDir
   = ''\<newline>      @page {\<newline>        margin: 1in;\<newline>      }\<newline>      body {\<newline>        margin: 0;\<newline>        padding: 0;\<newline>      }\<newline>    ''"
  by (simp add: matchUrl_def)

lemma readCssFiles_ok:
  "\<forall>f\<in>set cssFiles. files (m_path f) \<noteq> Some Directory \<Longrightarrow>
   \<exists>css. readCssFiles files cssFiles acc = Inr (acc @ css)"
proof (induction cssFiles arbitrary: acc)
  case Nil
  then show ?case by simp
next
  case (Cons f fs)
  then have fs: "\<forall>f\<in>set fs. files (m_path f) \<noteq> Some Directory" by simp
  show ?case
  proof (cases "files (m_path f)")
    case None
    with Cons.IH[OF fs, of acc] show ?thesis by (simp add: existsSync_def)
  next
    case (Some e)
    with Cons.prems obtain t where t: "files (m_path f) = Some (File t)"
      by (cases e) auto
    from Cons.IH[OF fs, of "acc @ t @ ''\<newline>''"] obtain css where
      "readCssFiles files fs (acc @ t @ ''\<newline>'') = Inr ((acc @ t @ ''\<newline>'') @ css)" by blast
    with t show ?thesis by (simp add: existsSync_def readFile_def)
  qed
qed

lemma processCssFiles_ok:
  assumes "preserveOriginalCss opts \<longrightarrow> (\<forall>f\<in>set cssFiles. files (m_path f) \<noteq> Some Directory)"
  shows "\<exists>pre. processCssFiles opts files cssFiles = Inr (pre @ pdfCss (margin opts))"
proof (cases "preserveOriginalCss opts")
  case True
  with assms readCssFiles_ok[of cssFiles files "[]"] obtain css where
    "readCssFiles files cssFiles [] = Inr css" by auto
  with True show ?thesis by (simp add: processCssFiles_def)
next
  case False
  then show ?thesis by (simp add: processCssFiles_def)
qed

text \<open>
  Claim C10. Whatever the configuration (original styles kept or not, custom rules or
  none, any list of stylesheet files, none included), the aggregated stylesheet ends
  with the engine-generated text: the \<open>@page\<close> rule with the configured margin in inches,
  then the rule that resets margin and padding of \<open>body\<close>. The stylesheet is produced
  whenever original styles are not kept, or no stylesheet path is a directory (reading
  one is the only way \<open>processCssFiles\<close> can throw).
\<close>

theorem pdf_rules_always_appended:
  assumes "preserveOriginalCss opts \<longrightarrow> (\<forall>f\<in>set cssFiles. files (m_path f) \<noteq> Some Directory)"
  shows "\<exists>pre. processCssFiles opts files cssFiles
           = Inr (pre @ ''\<newline>      @page {\<newline>        margin: '' @ numberToString (margin opts)
                  @ ''in;\<newline>      }\<newline>      body {\<newline>        margin: 0;\<newline>        padding: 0;\<newline>      }\<newline>    '')"
  using processCssFiles_ok[OF assms] by (simp add: pdfCss_def)

theorem pdf_rules_always_appended_witness:
  "processCssFiles \<lparr> format = ''A4'', margin = Number 5 1, includePageNumbers = True,
                     customCss = [], preserveOriginalCss = False \<rparr>
     (packageFiles folderOpf folderEntries)
     [\<lparr> m_id = ''d'', m_href = [], m_mediaType = ''text/css'', m_properties = [],
        m_path = ''/e/OEBPS'' \<rparr>]
   = Inr ''\<newline>      @page {\<newline>        margin: 0.5in;\<newline>      }\<newline>      body {\<newline>        margin: 0;\<newline>        padding: 0;\<newline>      }\<newline>    ''"
proof -
  let ?opts = "\<lparr> format = ''A4'', margin = Number 5 1, includePageNumbers = True,
                 customCss = [], preserveOriginalCss = False \<rparr>"
  let ?css = "[\<lparr> m_id = ''d'', m_href = [], m_mediaType = ''text/css'', m_properties = [],
                  m_path = ''/e/OEBPS'' \<rparr>]"
  have "preserveOriginalCss ?opts \<longrightarrow>
        (\<forall>f\<in>set ?css. packageFiles folderOpf folderEntries (m_path f) \<noteq> Some Directory)"
    by simp
  from pdf_rules_always_appended[OF this] obtain pre where
    "processCssFiles ?opts (packageFiles folderOpf folderEntries) ?css
     = Inr (pre @ ''\<newline>      @page {\<newline>        margin: '' @ numberToString (margin ?opts)
                  @ ''in;\<newline>      }\<newline>      body {\<newline>        margin: 0;\<newline>        padding: 0;\<newline>      }\<newline>    '')"
    by blast
  moreover have "processCssFiles ?opts (packageFiles folderOpf folderEntries) ?css = Inr (pdfCss (Number 5 1))"
    by (simp add: processCssFiles_def del: One_nat_def)
  ultimately show ?thesis
    by (simp only: pdfCss_half)
qed

text \<open>
  Claim C7, as the code has it. With no stylesheet entries, original styles kept, no
  custom rules and margin 1, the aggregated stylesheet is exactly the \<open>@page\<close> rule with
  margin \<open>1in\<close> followed by the rule that resets margin and padding of \<open>body\<close>; the
  page-break rule is not part of it. \<open>createCombinedHtml\<close> adds the page-break rule in
  front of the first \<open></style>\<close> of the document, so that (for a title that does not
  itself contain \<open></style>\<close>) the style element of the combined document holds these
  three rules: page margin, body reset, page break.
\<close>

theorem zero_stylesheets_style:
  "processCssFiles \<lparr> format = f, margin = Number 1 0, includePageNumbers = n,
                     customCss = [], preserveOriginalCss = True \<rparr> files []
   = Inr ''\<newline>      @page {\<newline>        margin: 1in;\<newline>      }\<newline>      body {\<newline>        margin: 0;\<newline>        padding: 0;\<newline>      }\<newline>    ''
   \<and> (cssContent epubData = ''\<newline>      @page {\<newline>        margin: 1in;\<newline>      }\<newline>      body {\<newline>        margin: 0;\<newline>        padding: 0;\<newline>      }\<newline>    ''
        \<and> \<not> str_includes (title (metadata epubData)) ''</style>''
      \<longrightarrow> combinedHtml (htmlShell lib epubData @ body)
          = ''<!DOCTYPE html>\<newline><html>\<newline><head>\<newline>  <meta charset='' @ dq @ ''UTF-8'' @ dq
            @ ''>\<newline>  <title>'' @ title (metadata epubData)
            @ ''</title>\<newline>  <style>\<newline>    \<newline>      @page {\<newline>        margin: 1in;\<newline>      }\<newline>      body {\<newline>        margin: 0;\<newline>        padding: 0;\<newline>      }\<newline>    \<newline>  \<newline>  .page-break {\<newline>    page-break-after: always;\<newline>  }\<newline></style>\<newline></head>\<newline><body>''
            @ body @ ''</body></html>'')"
proof (intro conjI impI)
  show "processCssFiles \<lparr> format = f, margin = Number 1 0, includePageNumbers = n,
                     customCss = [], preserveOriginalCss = True \<rparr> files []
   = Inr ''\<newline>      @page {\<newline>        margin: 1in;\<newline>      }\<newline>      body {\<newline>        margin: 0;\<newline>        padding: 0;\<newline>      }\<newline>    ''"
    by (simp add: processCssFiles_def pdfCss_one del: One_nat_def)
next
  assume a: "cssContent epubData = ''\<newline>      @page {\<newline>        margin: 1in;\<newline>      }\<newline>      body {\<newline>        margin: 0;\<newline>        padding: 0;\<newline>      }\<newline>    ''
        \<and> \<not> str_includes (title (metadata epubData)) ''</style>''"
  then have t: "\<not> sublist (CHR ''<'' # ''/style>'') (title (metadata epubData))"
    by (simp add: str_includes_def)
  have s: "CHR ''<'' \<notin> set ''/style>''" by simp
  note ns = str_replace_no_straddle[OF t s]
  show "combinedHtml (htmlShell lib epubData @ body)
          = ''<!DOCTYPE html>\<newline><html>\<newline><head>\<newline>  <meta charset='' @ dq @ ''UTF-8'' @ dq
            @ ''>\<newline>  <title>'' @ title (metadata epubData)
            @ ''</title>\<newline>  <style>\<newline>    \<newline>      @page {\<newline>        margin: 1in;\<newline>      }\<newline>      body {\<newline>        margin: 0;\<newline>        padding: 0;\<newline>      }\<newline>    \<newline>  \<newline>  .page-break {\<newline>    page-break-after: always;\<newline>  }\<newline></style>\<newline></head>\<newline><body>''
            @ body @ ''</body></html>''"
    using a by (simp add: combinedHtml_def htmlShell_def processFontPaths_one dq_def ns pageBreakCss_def
                  del: processFontPaths.simps)
qed

theorem zero_stylesheets_style_witness:
  "combinedHtml
     (htmlShell exampleLibrary
        \<lparr> metadata = \<lparr> title = ''Demo'', creator = ''Unknown Author'', language = ''en'' \<rparr>,
          spine = [], manifest = [],
          cssContent = ''\<newline>      @page {\<newline>        margin: 1in;\<newline>      }\<newline>      body {\<newline>        margin: 0;\<newline>        padding: 0;\<newline>      }\<newline>    '',
          fontFiles = [], basePath = ''/e/OEBPS'' \<rparr>
      @ ''<p>One</p>'')
   = ''<!DOCTYPE html>\<newline><html>\<newline><head>\<newline>  <meta charset='' @ dq @ ''UTF-8'' @ dq
     @ ''>\<newline>  <title>Demo</title>\<newline>  <style>\<newline>    \<newline>      @page {\<newline>        margin: 1in;\<newline>      }\<newline>      body {\<newline>        margin: 0;\<newline>        padding: 0;\<newline>      }\<newline>    \<newline>  \<newline>  .page-break {\<newline>    page-break-after: always;\<newline>  }\<newline></style>\<newline></head>\<newline><body><p>One</p></body></html>''"
  using zero_stylesheets_style[of "''A4''" True "packageFiles bookOpf bookEntries"
      "\<lparr> metadata = \<lparr> title = ''Demo'', creator = ''Unknown Author'', language = ''en'' \<rparr>,
         spine = [], manifest = [],
         cssContent = ''\<newline>      @page {\<newline>        margin: 1in;\<newline>      }\<newline>      body {\<newline>        margin: 0;\<newline>        padding: 0;\<newline>      }\<newline>    '',
         fontFiles = [], basePath = ''/e/OEBPS'' \<rparr>" exampleLibrary "''<p>One</p>''"]
  by (simp add: str_includes_def sublist_code)

text \<open>
  Claim C7 as the specification states it fails: in its own scenario the aggregated
  stylesheet holds the body reset rule next to the margin rule, and no page-break rule.
\<close>

theorem zero_stylesheets_style_counterexample:
  "processCssFiles \<lparr> format = ''A4'', margin = Number 1 0, includePageNumbers = True,
                     customCss = [], preserveOriginalCss = True \<rparr>
     (packageFiles bookOpf bookEntries) []
   = Inr ''\<newline>      @page {\<newline>        margin: 1in;\<newline>      }\<newline>      body {\<newline>        margin: 0;\<newline>        padding: 0;\<newline>      }\<newline>    ''"
  by (simp add: processCssFiles_def pdfCss_one del: One_nat_def)

section \<open>The manifest\<close>










section \<open>References in the stylesheet\<close>

lemma processFontPaths_unmatched:
  "(\<And>i. i < length a \<Longrightarrow> matchUrl (drop i (a @ s)) = None) \<Longrightarrow>
   processFontPaths lib (a @ s) fontDir = a @ processFontPaths lib s fontDir"
proof (induction a)
  case Nil
  then show ?case by simp
next
  case (Cons c cs)
  from Cons.prems[of 0] have "matchUrl (c # cs @ s) = None"
    by simp
  moreover have "matchUrl (drop i (cs @ s)) = None" if "i < length cs" for i
    using Cons.prems[of "Suc i"] that by simp
  ultimately show ?case
    using Cons.IH by simp
qed

lemma optQuote_split: "\<exists>q\<in>{[], sq, dq}. s = q @ optQuote s"
  by (cases s) (auto simp: optQuote_def isQuote_def sq_def dq_def)

lemma matchUrl_Some:
  assumes "matchUrl s = Some (p, rest)"
  shows "\<exists>q1 q2. isUrlRef q1 p q2 \<and> s = urlRef q1 p q2 @ rest"
proof -
  let ?r1 = "optQuote (drop 4 s)"
  let ?d = "dropWhile isPathChar ?r1"
  from assms have pre: "prefix ''url('' s"
    by (auto simp: matchUrl_def split: if_splits)
  with assms have p: "p = takeWhile isPathChar ?r1" "p \<noteq> []"
    and r2: "optQuote ?d = CHR '')'' # rest"
    by (auto simp: matchUrl_def Let_def split: if_splits list.splits)
  from pre have s: "s = ''url('' @ drop 4 s"
    by (auto simp: prefix_def)
  from optQuote_split[of "drop 4 s"] obtain q1 where
    q1: "q1 \<in> {[], sq, dq}" "drop 4 s = q1 @ ?r1" by blast
  from optQuote_split[of ?d] r2 obtain q2 where
    q2: "q2 \<in> {[], sq, dq}" "?d = q2 @ CHR '')'' # rest" by auto
  have "?r1 = p @ ?d"
    by (simp add: p(1))
  with q1(2) q2(2) s have "s = ''url('' @ q1 @ p @ q2 @ CHR '')'' # rest"
    by simp
  moreover from p(1) have "list_all isPathChar p"
    by (auto simp: list_all_iff dest: set_takeWhileD)
  ultimately show ?thesis
    using q1(1) q2(1) p(2) by (auto simp: isUrlRef_def urlRef_def)
qed

lemma optQuote_quote: "q \<in> {[], sq, dq} \<Longrightarrow> r \<noteq> [] \<Longrightarrow> \<not> isQuote (hd r) \<Longrightarrow> optQuote (q @ r) = r"
  by (cases r) (auto simp: optQuote_def sq_def dq_def isQuote_def)

lemma matchUrl_ref:
  assumes "isUrlRef q1 p q2"
  shows "matchUrl (urlRef q1 p q2 @ rest) = Some (p, rest)"
proof -
  from assms have q1: "q1 \<in> {[], sq, dq}" and q2: "q2 \<in> {[], sq, dq}" and p: "p \<noteq> []"
    and pc: "\<And>c. c \<in> set p \<Longrightarrow> isPathChar c"
    by (auto simp: isUrlRef_def list_all_iff)
  let ?tail = "q2 @ CHR '')'' # rest"
  from p pc have "\<not> isQuote (hd p)"
    by (cases p) (auto simp: isPathChar_def)
  with q1 p have r1: "optQuote (q1 @ p @ ?tail) = p @ ?tail"
    using optQuote_quote[of q1 "p @ ?tail"] by simp
  from q2 have nt: "takeWhile isPathChar ?tail = []" and nd: "dropWhile isPathChar ?tail = ?tail"
    by (auto simp: sq_def dq_def isPathChar_def isQuote_def)
  from pc have tw: "takeWhile isPathChar (p @ ?tail) = p"
    by (simp add: takeWhile_append2 nt del: takeWhile.simps)
  from pc have dw: "dropWhile isPathChar (p @ ?tail) = ?tail"
    by (simp add: dropWhile_append2 nd del: dropWhile.simps)
  have r2: "optQuote ?tail = CHR '')'' # rest"
    using q2 optQuote_quote[of q2 "CHR '')'' # rest"] by (simp add: isQuote_def)
  have "matchUrl (''url('' @ q1 @ p @ ?tail) = Some (p, rest)"
    using p by (simp add: matchUrl_def r1 tw dw r2 del: takeWhile.simps dropWhile.simps)
  then show ?thesis by (simp add: urlRef_def)
qed

lemma no_reference_unmatched:
  assumes "\<forall>q1 p q2 rest. isUrlRef q1 p q2 \<longrightarrow> s \<noteq> urlRef q1 p q2 @ rest"
  shows "matchUrl s = None"
proof (cases "matchUrl s")
  case None
  then show ?thesis .
next
  case (Some m)
  obtain p rest where "m = (p, rest)" by (cases m) auto
  with Some matchUrl_Some[of s p rest] assms show ?thesis by blast
qed

text \<open>
  Claim C9, as the code has it. \<open>processFontPaths\<close> reads the stylesheet from left to
  right. Where a reference of the form \<open>url(\<close>, optional quote, non-empty path without
  quotes and without \<open>)\<close>, optional quote, \<open>)\<close> begins, and no such reference begins at
  any position before it, the text before it is kept as it is (whatever it holds: a
  \<open>@font-face\<close> rule, a \<open>background-image\<close> declaration, a \<open>url(\<close> that starts no such
  reference), the reference is replaced by \<open>url('\<close>, the font directory, the basename
  of its path, \<open>')\<close>, and the text behind it is treated in the same way. A stylesheet in
  which no such reference begins at any position is left as it is. The two statements
  together fix the result for every stylesheet.
\<close>

theorem every_plain_url_rewritten:
  "(isUrlRef q1 p q2
    \<and> (\<forall>i<length a. \<forall>q1' p' q2' rest.
          isUrlRef q1' p' q2' \<longrightarrow> drop i (a @ urlRef q1 p q2 @ b) \<noteq> urlRef q1' p' q2' @ rest)
    \<longrightarrow> processFontPaths lib (a @ urlRef q1 p q2 @ b) fontDir
        = a @ ''url('' @ sq @ fontDir @ path_basename lib p @ sq @ '')''
          @ processFontPaths lib b fontDir)
   \<and> ((\<forall>i<length css. \<forall>q1' p' q2' rest.
          isUrlRef q1' p' q2' \<longrightarrow> drop i css \<noteq> urlRef q1' p' q2' @ rest)
      \<longrightarrow> processFontPaths lib css fontDir = css)"
proof (intro conjI impI)
  assume h: "isUrlRef q1 p q2
    \<and> (\<forall>i<length a. \<forall>q1' p' q2' rest.
          isUrlRef q1' p' q2' \<longrightarrow> drop i (a @ urlRef q1 p q2 @ b) \<noteq> urlRef q1' p' q2' @ rest)"
  then have "matchUrl (drop i (a @ urlRef q1 p q2 @ b)) = None" if "i < length a" for i
    using that by (intro no_reference_unmatched) blast
  then have "processFontPaths lib (a @ urlRef q1 p q2 @ b) fontDir
             = a @ processFontPaths lib (urlRef q1 p q2 @ b) fontDir"
    by (rule processFontPaths_unmatched)
  moreover have "processFontPaths lib (urlRef q1 p q2 @ b) fontDir
        = ''url('' @ sq @ fontDir @ path_basename lib p @ sq @ '')''
          @ processFontPaths lib b fontDir"
    using h matchUrl_ref[of q1 p q2 b] by (simp add: urlRef_def)
  ultimately show "processFontPaths lib (a @ urlRef q1 p q2 @ b) fontDir
        = a @ ''url('' @ sq @ fontDir @ path_basename lib p @ sq @ '')''
          @ processFontPaths lib b fontDir"
    by simp
next
  assume h: "\<forall>i<length css. \<forall>q1' p' q2' rest.
          isUrlRef q1' p' q2' \<longrightarrow> drop i css \<noteq> urlRef q1' p' q2' @ rest"
  then have "matchUrl (drop i (css @ [])) = None" if "i < length css" for i
    using that by (intro no_reference_unmatched) simp
  then have "processFontPaths lib (css @ []) fontDir = css @ processFontPaths lib [] fontDir"
    by (rule processFontPaths_unmatched)
  then show "processFontPaths lib css fontDir = css"
    by simp
qed

lemma unmatched_positions:
  assumes "list_all (\<lambda>i. matchUrl (drop i s) = None) [0..<n]"
  shows "\<forall>i<n. \<forall>q1 p q2 rest. isUrlRef q1 p q2 \<longrightarrow> drop i s \<noteq> urlRef q1 p q2 @ rest"
proof (intro allI impI notI)
  fix i q1 p q2 rest
  assume "i < n" and r: "isUrlRef q1 p q2" and "drop i s = urlRef q1 p q2 @ rest"
  with matchUrl_ref[OF r, of rest] have "matchUrl (drop i s) \<noteq> None"
    by simp
  moreover from assms \<open>i < n\<close> have "matchUrl (drop i s) = None"
    by (simp add: list_all_iff)
  ultimately show False by simp
qed

theorem every_plain_url_rewritten_witness:
  "processFontPaths exampleLibrary
     (''a{background:url( '' @ sq @ ''x.png'' @ sq @ '' )}@font-face{src:url(../fonts/a.ttf)}'')
     ''assets/''
   = ''a{background:url( '' @ sq @ ''x.png'' @ sq @ '' )}@font-face{src:url(''
     @ sq @ ''assets/a.ttf'' @ sq @ '')}''
   \<and> processFontPaths exampleLibrary ''body { margin: 0; }'' ''assets/'' = ''body { margin: 0; }''"
proof
  let ?a = "''a{background:url( '' @ sq @ ''x.png'' @ sq @ '' )}@font-face{src:''"
  let ?s = "?a @ urlRef [] ''../fonts/a.ttf'' [] @ ''}''"
  have n: "length ?a = 43"
    by (simp add: sq_def)
  have "list_all (\<lambda>i. matchUrl (drop i ?s) = None) [0..<43]"
    by code_simp
  from unmatched_positions[OF this] have
    1: "\<forall>i<length ?a. \<forall>q1' p' q2' rest.
          isUrlRef q1' p' q2' \<longrightarrow> drop i ?s \<noteq> urlRef q1' p' q2' @ rest"
    by (simp only: n)
  have 2: "isUrlRef [] ''../fonts/a.ttf'' []"
    by code_simp
  have b: "path_basename exampleLibrary ''../fonts/a.ttf'' = ''a.ttf''"
    by (simp add: exampleLibrary_def posix_basename_def)
  have e: "processFontPaths exampleLibrary ''}'' ''assets/'' = ''}''"
    by (simp add: matchUrl_def)
  from every_plain_url_rewritten[of "[]" "''../fonts/a.ttf''" "[]" ?a "''}''" exampleLibrary
      "''assets/''"] 1 2
  have "processFontPaths exampleLibrary ?s ''assets/''
        = ?a @ ''url('' @ sq @ ''assets/'' @ path_basename exampleLibrary ''../fonts/a.ttf''
          @ sq @ '')'' @ processFontPaths exampleLibrary ''}'' ''assets/''"
    by blast
  then show "processFontPaths exampleLibrary
     (''a{background:url( '' @ sq @ ''x.png'' @ sq @ '' )}@font-face{src:url(../fonts/a.ttf)}'')
     ''assets/''
   = ''a{background:url( '' @ sq @ ''x.png'' @ sq @ '' )}@font-face{src:url(''
     @ sq @ ''assets/a.ttf'' @ sq @ '')}''"
    by (simp add: b e urlRef_def del: processFontPaths.simps)
next
  have "list_all (\<lambda>i. matchUrl (drop i ''body { margin: 0; }'') = None) [0..<19]"
    by code_simp
  from unmatched_positions[OF this] have
    "\<forall>i<length ''body { margin: 0; }''. \<forall>q1' p' q2' rest.
          isUrlRef q1' p' q2' \<longrightarrow> drop i ''body { margin: 0; }'' \<noteq> urlRef q1' p' q2' @ rest"
    by simp
  with every_plain_url_rewritten[of _ _ _ _ _ exampleLibrary "''assets/''"
      "''body { margin: 0; }''"]
  show "processFontPaths exampleLibrary ''body { margin: 0; }'' ''assets/'' = ''body { margin: 0; }''"
    by blast
qed

text \<open>
  Claim C9 as stated, for every \<open>url(...)\<close> reference, fails: a reference with white
  space between the parentheses and its quoted path, which CSS allows, is left as it
  is.
\<close>

theorem every_plain_url_rewritten_counterexample:
  "processFontPaths exampleLibrary
     (''h1{background-image:url( '' @ sq @ ''img/bg.png'' @ sq @ '' )}'') ''assets/''
   = ''h1{background-image:url( '' @ sq @ ''img/bg.png'' @ sq @ '' )}''"
  by (simp add: sq_def matchUrl_def optQuote_def isQuote_def isPathChar_def)

section \<open>Image references\<close>

lemma attr_fixSrc:
  "attr (fixSrc lib attrs) ''src''
   = map_option (\<lambda>src. if src = [] then [] else ''assets/'' @ path_basename lib src)
       (attr attrs ''src'')"
  by (cases "map_of attrs ''src''") (simp_all add: fixSrc_def attr_def update_conv')

lemma attr_fixSrcCombined:
  "attr (fixSrcCombined lib attrs) ''src''
   = map_option (\<lambda>src. if src \<noteq> [] \<and> \<not> str_startsWith src ''assets/''
                        then ''assets/'' @ path_basename lib src else src)
       (attr attrs ''src'')"
  by (cases "map_of attrs ''src''") (simp_all add: fixSrcCombined_def attr_def update_conv')

lemma imgSources_fixImagePaths:
  "imgSources (fixImagePaths lib n)
   = map (\<lambda>src. if src = [] then [] else ''assets/'' @ path_basename lib src) (imgSources n)"
proof (induction n)
  case (Element name attrs children)
  then have "concat (map (imgSources \<circ> fixImagePaths lib) children)
      = map (\<lambda>src. if src = [] then [] else ''assets/'' @ path_basename lib src)
          (concat (map imgSources children))"
    by (induction children) simp_all
  then show ?case
    by (cases "attr attrs ''src''") (simp_all add: attr_fixSrc)
qed simp_all

lemma imgSources_fixImagePathsCombined:
  "imgSources (fixImagePathsCombined lib n)
   = map (\<lambda>src. if src \<noteq> [] \<and> \<not> str_startsWith src ''assets/''
                 then ''assets/'' @ path_basename lib src else src) (imgSources n)"
proof (induction n)
  case (Element name attrs children)
  then have "concat (map (imgSources \<circ> fixImagePathsCombined lib) children)
      = map (\<lambda>src. if src \<noteq> [] \<and> \<not> str_startsWith src ''assets/''
                 then ''assets/'' @ path_basename lib src else src)
          (concat (map imgSources children))"
    by (induction children) simp_all
  then show ?case
    by (cases "attr attrs ''src''") (simp_all add: attr_fixSrcCombined)
qed simp_all

lemma document_fixImagePaths:
  "documentImgSources (map (fixImagePaths lib) doc)
   = map (\<lambda>src. if src = [] then [] else ''assets/'' @ path_basename lib src)
       (documentImgSources doc)"
  by (induction doc) (simp_all add: documentImgSources_def imgSources_fixImagePaths)

lemma document_fixImagePathsCombined:
  "documentImgSources (map (fixImagePathsCombined lib) doc)
   = map (\<lambda>src. if src \<noteq> [] \<and> \<not> str_startsWith src ''assets/''
                 then ''assets/'' @ path_basename lib src else src)
       (documentImgSources doc)"
  by (induction doc) (simp_all add: documentImgSources_def imgSources_fixImagePathsCombined)

text \<open>
  Claim C5, as the code has it. The pass over one content document gives every \<open>img\<close>
  with a non-empty \<open>src\<close> the source \<open>assets/\<close> followed by the basename of the old
  source, and leaves an empty \<open>src\<close> empty. The pass over the combined document does the
  same to every non-empty source that does not start with \<open>assets/\<close>, and leaves the
  others as they are. So in the tree that is serialised as the final document every
  \<open>img\<close> source is empty or starts with \<open>assets/\<close>.
\<close>

theorem image_sources_flattened:
  "documentImgSources (map (fixImagePaths lib) doc)
   = map (\<lambda>src. if src = [] then [] else ''assets/'' @ path_basename lib src)
       (documentImgSources doc)
   \<and> documentImgSources (map (fixImagePathsCombined lib) doc)
     = map (\<lambda>src. if src \<noteq> [] \<and> \<not> str_startsWith src ''assets/''
                   then ''assets/'' @ path_basename lib src else src)
         (documentImgSources doc)
   \<and> (createCombinedHtml lib files tempDir epubData = Inr combined \<longrightarrow>
        (\<exists>html.
           htmlText combined
           = cheerio_html lib
               (map (fixImagePathsCombined lib) (cheerio_load lib (combinedHtml html)))
           \<and> list_all (\<lambda>src. src = [] \<or> str_startsWith src ''assets/'')
                (documentImgSources
                   (map (fixImagePathsCombined lib) (cheerio_load lib (combinedHtml html))))))"
proof (intro conjI impI)
  assume c: "createCombinedHtml lib files tempDir epubData = Inr combined"
  then obtain html where
    "htmlText combined
     = cheerio_html lib (map (fixImagePathsCombined lib) (cheerio_load lib (combinedHtml html)))"
    by (auto simp: createCombinedHtml_def Let_def split: sum.splits)
  moreover have "list_all (\<lambda>src. src = [] \<or> str_startsWith src ''assets/'')
     (documentImgSources (map (fixImagePathsCombined lib) (cheerio_load lib (combinedHtml html))))"
    by (auto simp: document_fixImagePathsCombined list_all_iff str_startsWith_def)
  ultimately show "\<exists>html.
           htmlText combined
           = cheerio_html lib
               (map (fixImagePathsCombined lib) (cheerio_load lib (combinedHtml html)))
           \<and> list_all (\<lambda>src. src = [] \<or> str_startsWith src ''assets/'')
                (documentImgSources
                   (map (fixImagePathsCombined lib) (cheerio_load lib (combinedHtml html))))"
    by blast
qed (rule document_fixImagePaths document_fixImagePathsCombined)+

theorem image_sources_flattened_witness:
  "documentImgSources (map (fixImagePaths exampleLibrary) ch1Doc) = [''assets/a.png'']
   \<and> (\<exists>html.
         textOf bookCombinedDoc
         = cheerio_html exampleLibrary
             (map (fixImagePathsCombined exampleLibrary)
                (cheerio_load exampleLibrary (combinedHtml html)))
         \<and> list_all (\<lambda>src. src = [] \<or> str_startsWith src ''assets/'')
              (documentImgSources
                 (map (fixImagePathsCombined exampleLibrary)
                    (cheerio_load exampleLibrary (combinedHtml html)))))"
proof -
  have s: "documentImgSources ch1Doc = [''../images/a.png'']"
    by code_simp
  have b: "path_basename exampleLibrary ''../images/a.png'' = ''a.png''"
    by (simp add: exampleLibrary_def posix_basename_def)
  from image_sources_flattened[of exampleLibrary ch1Doc "packageFiles bookOpf bookEntries"
      "''/t''" bookData
      "\<lparr> htmlPath = ''/t/combined.html'', htmlText = textOf bookCombinedDoc,
         copied = [(''/e/OEBPS/images/a.png'', ''/t/assets/a.png'')] \<rparr>",
      unfolded book_createCombinedHtml s]
  show ?thesis by (simp add: b)
qed

text \<open>
  Claim C5 as stated, for every \<open>src\<close> attribute present, fails: an \<open>img\<close> with an empty
  \<open>src\<close> goes through both passes with its \<open>src\<close> still empty, which is not \<open>assets/\<close>
  followed by a basename.
\<close>

theorem image_sources_flattened_counterexample:
  "documentImgSources
     (map (fixImagePathsCombined exampleLibrary)
        (map (fixImagePaths exampleLibrary)
           (htmlDocument [Element ''img'' [(''src'', [])] []])))
   = [[]]"
  by code_simp

section \<open>The loop over the spine\<close>

lemma addContent_appendedItems:
  "addContent lib files sp html = addContent lib files (appendedItems files sp) html"
proof (induction sp arbitrary: html)
  case Nil
  then show ?case by (simp add: appendedItems_def)
next
  case (Cons s ss)
  then show ?case
    by (simp add: appendedItems_def split: sum.splits)
qed

lemma addContent_ok:
  "\<forall>s\<in>set sp. s_linear s \<longrightarrow> files (s_path s) \<noteq> Some Directory \<Longrightarrow>
   \<exists>h. addContent lib files sp html = Inr h"
proof (induction sp arbitrary: html)
  case Nil
  then show ?case by simp
next
  case (Cons s ss)
  then have ss: "\<forall>s\<in>set ss. s_linear s \<longrightarrow> files (s_path s) \<noteq> Some Directory"
    by simp
  show ?case
  proof (cases "s_linear s \<and> existsSync files (s_path s)")
    case True
    with Cons.prems obtain t where "files (s_path s) = Some (File t)"
      by (cases "files (s_path s)") (auto simp: existsSync_def elim: entry.exhaust)
    with True Cons.IH[OF ss] show ?thesis
      by (simp add: readFile_def)
  next
    case False
    with Cons.IH[OF ss] show ?thesis by auto
  qed
qed

lemma copyAsset_ok:
  assumes "\<forall>f\<in>set xs. existsSync files (m_path f)"
  shows "\<exists>ys. map_throwing (copyAsset lib files dir) xs = Inr ys"
proof -
  have "\<exists>y. copyAsset lib files dir x = Inr y" if "x \<in> set xs" for x
    using that assms by (auto simp: copyAsset_def copy_def existsSync_def)
  from map_throwing_all_ok[of xs "copyAsset lib files dir", OF this]
  show ?thesis by blast
qed

lemma addContent_structure:
  "addContent lib files sp html = Inr h \<Longrightarrow>
   \<exists>seps. length seps = length (appendedBodies lib files sp) \<and> set seps \<subseteq> {[], pageBreak}
        \<and> h = html @ concat (map2 (@) seps (appendedBodies lib files sp))"
proof (induction sp arbitrary: html)
  case Nil
  then show ?case by (simp add: appendedBodies_def appendedItems_def)
next
  case (Cons s ss)
  show ?case
  proof (cases "s_linear s \<and> existsSync files (s_path s)")
    case True
    with Cons.prems obtain t where t: "files (s_path s) = Some (File t)"
      by (cases "files (s_path s)")
         (auto simp: existsSync_def readFile_def split: entry.splits)
    let ?sep = "if str_includes html ''</section>'' then pageBreak else []"
    from True t Cons.prems have
      "addContent lib files ss ((html @ ?sep) @ bodyContent lib t) = Inr h"
      by (auto simp: readFile_def)
    from Cons.IH[OF this] obtain seps where seps:
      "length seps = length (appendedBodies lib files ss)" "set seps \<subseteq> {[], pageBreak}"
      "h = ((html @ ?sep) @ bodyContent lib t)
           @ concat (map2 (@) seps (appendedBodies lib files ss))"
      by blast
    from True t have b: "appendedBodies lib files (s # ss)
                         = bodyContent lib t # appendedBodies lib files ss"
      by (simp add: appendedBodies_def appendedItems_def fileText_def)
    have "length (?sep # seps) = length (appendedBodies lib files (s # ss))"
      "set (?sep # seps) \<subseteq> {[], pageBreak}"
      "h = html @ concat (map2 (@) (?sep # seps) (appendedBodies lib files (s # ss)))"
      using seps by (simp_all add: b)
    then show ?thesis by blast
  next
    case False
    then have "appendedBodies lib files (s # ss) = appendedBodies lib files ss"
      by (auto simp: appendedBodies_def appendedItems_def)
    with False Cons show ?thesis by auto
  qed
qed

lemma htmlShell_style: "sublist ''</style>'' (htmlShell lib epubData)"
proof -
  have "htmlShell lib epubData
        = (''<!DOCTYPE html>\<newline><html>\<newline><head>\<newline>  <meta charset='' @ dq @ ''UTF-8'' @ dq
           @ ''>\<newline>  <title>'' @ title (metadata epubData)
           @ ''</title>\<newline>  <style>\<newline>    ''
           @ processFontPaths lib (cssContent epubData) ''assets/'' @ ''\<newline>  '')
          @ ''</style>'' @ ''\<newline></head>\<newline><body>''"
    by (simp add: htmlShell_def)
  then show ?thesis
    by (simp only: sublist_appendI)
qed

lemma combinedHtml_body:
  "combinedHtml (htmlShell lib epubData @ body)
   = str_replace (htmlShell lib epubData) ''</style>'' pageBreakCss @ body @ ''</body></html>''"
  using str_replace_append[OF htmlShell_style, of lib epubData "body @ ''</body></html>''" pageBreakCss]
  by (simp add: combinedHtml_def)

lemma addContent_directory:
  "\<exists>s\<in>set sp. s_linear s \<and> files (s_path s) = Some Directory \<Longrightarrow>
   addContent lib files sp html = Inl (SystemError ''EISDIR'')"
proof (induction sp arbitrary: html)
  case Nil
  then show ?case by simp
next
  case (Cons s ss)
  show ?case
  proof (cases "s_linear s \<and> existsSync files (s_path s)")
    case True
    then obtain e where e: "files (s_path s) = Some e"
      by (auto simp: existsSync_def)
    show ?thesis
    proof (cases e)
      case (File t)
      with e Cons.prems have "\<exists>s\<in>set ss. s_linear s \<and> files (s_path s) = Some Directory"
        by auto
      from Cons.IH[OF this] True e File show ?thesis
        by (simp add: readFile_def)
    next
      case Directory
      with True e show ?thesis
        by (simp add: readFile_def)
    qed
  next
    case False
    with Cons.prems have "\<exists>s\<in>set ss. s_linear s \<and> files (s_path s) = Some Directory"
      by (auto simp: existsSync_def)
    from Cons.IH[OF this] False show ?thesis
      by auto
  qed
qed

text \<open>
  Claim C6, as the code has it. Let every font and image file of the manifest exist
  (they are copied first). A spine item that is not linear, or whose content file does
  not exist, is passed over without a trace: assembling gives the same result as
  assembling the spine without these items. If no linear spine item has a directory as
  its path, assembly succeeds, and the text handed to the last pass over the images is
  the shell followed by the body contents of the other items, once each and in spine
  order, each preceded by a page-break marker or by nothing. If a linear spine item
  has a directory as its path, it is not passed over: reading it throws \<open>EISDIR\<close>, and
  assembly, PDF generation and the conversion fail with this error.
\<close>

theorem absent_and_nonlinear_items_skipped:
  assumes "\<forall>f\<in>set (fontFiles epubData). existsSync files (m_path f)"
    and "\<forall>f\<in>set (manifest epubData).
           str_startsWith (m_mediaType f) ''image/'' \<longrightarrow> existsSync files (m_path f)"
  shows "createCombinedHtml lib files tempDir epubData
         = createCombinedHtml lib files tempDir
             (epubData\<lparr>spine := appendedItems files (spine epubData)\<rparr>)
         \<and> ((\<forall>s\<in>set (spine epubData). s_linear s \<longrightarrow> files (s_path s) \<noteq> Some Directory) \<longrightarrow>
              (\<exists>combined seps.
                 createCombinedHtml lib files tempDir epubData = Inr combined
                 \<and> length seps = length (appendedBodies lib files (spine epubData))
                 \<and> set seps \<subseteq> {[], pageBreak}
                 \<and> htmlText combined
                   = cheerio_html lib (map (fixImagePathsCombined lib) (cheerio_load lib
                       (str_replace (htmlShell lib epubData) ''</style>'' pageBreakCss
                        @ concat (map2 (@) seps (appendedBodies lib files (spine epubData)))
                        @ ''</body></html>'')))))
         \<and> ((\<exists>s\<in>set (spine epubData). s_linear s \<and> files (s_path s) = Some Directory) \<longrightarrow>
              createCombinedHtml lib files tempDir epubData = Inl (SystemError ''EISDIR'')
              \<and> generatePdf lib opts files tempDir epubData = Inl (SystemError ''EISDIR'')
              \<and> (processEpub lib opts files extractPath = Inr epubData \<longrightarrow>
                   convert lib opts files extractPath tempDir = Inl (SystemError ''EISDIR'')))"
proof -
  let ?dir = "path_join lib [tempDir, ''assets'']"
  let ?images = "filter (\<lambda>item. str_startsWith (m_mediaType item) ''image/'') (manifest epubData)"
  from copyAsset_ok[OF assms(1)] obtain fonts where
    f: "map_throwing (copyAsset lib files ?dir) (fontFiles epubData) = Inr fonts" by blast
  from assms(2) have "\<forall>f\<in>set ?images. existsSync files (m_path f)"
    by simp
  from copyAsset_ok[OF this] obtain images where
    i: "map_throwing (copyAsset lib files ?dir) ?images = Inr images" by blast
  have skip: "createCombinedHtml lib files tempDir epubData
         = createCombinedHtml lib files tempDir
             (epubData\<lparr>spine := appendedItems files (spine epubData)\<rparr>)"
  proof -
    have "htmlShell lib (epubData\<lparr>spine := appendedItems files (spine epubData)\<rparr>)
          = htmlShell lib epubData"
      by (simp add: htmlShell_def)
    then show ?thesis
      using addContent_appendedItems[of lib files "spine epubData" "htmlShell lib epubData"]
      by (simp add: createCombinedHtml_def Let_def cong: sum.case_cong)
  qed
  have ok: "\<exists>combined seps.
                 createCombinedHtml lib files tempDir epubData = Inr combined
                 \<and> length seps = length (appendedBodies lib files (spine epubData))
                 \<and> set seps \<subseteq> {[], pageBreak}
                 \<and> htmlText combined
                   = cheerio_html lib (map (fixImagePathsCombined lib) (cheerio_load lib
                       (str_replace (htmlShell lib epubData) ''</style>'' pageBreakCss
                        @ concat (map2 (@) seps (appendedBodies lib files (spine epubData)))
                        @ ''</body></html>'')))"
    if d: "\<forall>s\<in>set (spine epubData). s_linear s \<longrightarrow> files (s_path s) \<noteq> Some Directory"
  proof -
    from addContent_ok[OF d] obtain h where
      h: "addContent lib files (spine epubData) (htmlShell lib epubData) = Inr h" by blast
    from addContent_structure[OF h] obtain seps where seps:
      "length seps = length (appendedBodies lib files (spine epubData))"
      "set seps \<subseteq> {[], pageBreak}"
      "h = htmlShell lib epubData
           @ concat (map2 (@) seps (appendedBodies lib files (spine epubData)))"
      by blast
    let ?c = "\<lparr> htmlPath = path_join lib [tempDir, ''combined.html''],
                htmlText = cheerio_html lib
                  (map (fixImagePathsCombined lib) (cheerio_load lib (combinedHtml h))),
                copied = fonts @ images \<rparr>"
    from f i h have c: "createCombinedHtml lib files tempDir epubData = Inr ?c"
      by (simp add: createCombinedHtml_def Let_def)
    have "htmlText ?c
          = cheerio_html lib (map (fixImagePathsCombined lib) (cheerio_load lib
              (str_replace (htmlShell lib epubData) ''</style>'' pageBreakCss
               @ concat (map2 (@) seps (appendedBodies lib files (spine epubData)))
               @ ''</body></html>'')))"
      by (simp only: CombinedHtml.select_convs seps(3) combinedHtml_body)
    with c seps(1,2) show ?thesis by blast
  qed
  have bad: "createCombinedHtml lib files tempDir epubData = Inl (SystemError ''EISDIR'')
              \<and> generatePdf lib opts files tempDir epubData = Inl (SystemError ''EISDIR'')
              \<and> (processEpub lib opts files extractPath = Inr epubData \<longrightarrow>
                   convert lib opts files extractPath tempDir = Inl (SystemError ''EISDIR''))"
    if d: "\<exists>s\<in>set (spine epubData). s_linear s \<and> files (s_path s) = Some Directory"
  proof -
    from addContent_directory[OF d] f i
    have "createCombinedHtml lib files tempDir epubData = Inl (SystemError ''EISDIR'')"
      by (simp add: createCombinedHtml_def Let_def)
    then show ?thesis
      by (simp add: generatePdf_def convert_def)
  qed
  from skip ok bad show ?thesis by blast
qed

lemma gap_bodies:
  "appendedBodies exampleLibrary (packageFiles gapOpf bookEntries) (spine gapData)
   = [''<p>One</p><img src='' @ dq @ ''assets/a.png'' @ dq @ ''>'', ''<p>Two</p>'']"
  by code_simp

theorem absent_and_nonlinear_items_skipped_witness:
  "createCombinedHtml exampleLibrary (packageFiles gapOpf bookEntries) ''/t'' gapData
   = createCombinedHtml exampleLibrary (packageFiles gapOpf bookEntries) ''/t''
       (gapData\<lparr>spine := [spineEntry ''ch1'' True ''ch1.xhtml'',
                           spineEntry ''ch2'' True ''ch2.xhtml'']\<rparr>)
   \<and> (\<exists>seps. length seps = 2 \<and> set seps \<subseteq> {[], pageBreak}
         \<and> textOf bookCombinedDoc
           = cheerio_html exampleLibrary (map (fixImagePathsCombined exampleLibrary)
               (cheerio_load exampleLibrary
                  (str_replace (htmlShell exampleLibrary gapData) ''</style>'' pageBreakCss
                   @ concat (map2 (@) seps
                       [''<p>One</p><img src='' @ dq @ ''assets/a.png'' @ dq @ ''>'',
                        ''<p>Two</p>''])
                   @ ''</body></html>''))))
   \<and> createCombinedHtml exampleLibrary (packageFiles folderOpf folderEntries) ''/t'' folderData
     = Inl (SystemError ''EISDIR'')"
proof (intro conjI)
  let ?files = "packageFiles gapOpf bookEntries"
  have 1: "\<forall>f\<in>set (fontFiles gapData). existsSync ?files (m_path f)"
    by (simp add: gapData_def exampleData_def)
  have 2: "\<forall>f\<in>set (manifest gapData).
             str_startsWith (m_mediaType f) ''image/'' \<longrightarrow> existsSync ?files (m_path f)"
    by code_simp
  have 3: "\<forall>s\<in>set (spine gapData). s_linear s \<longrightarrow> ?files (s_path s) \<noteq> Some Directory"
    by code_simp
  have 4: "appendedItems ?files (spine gapData)
           = [spineEntry ''ch1'' True ''ch1.xhtml'', spineEntry ''ch2'' True ''ch2.xhtml'']"
    by code_simp
  note t = absent_and_nonlinear_items_skipped[OF 1 2, of exampleLibrary "''/t''"]
  from t show "createCombinedHtml exampleLibrary ?files ''/t'' gapData
   = createCombinedHtml exampleLibrary ?files ''/t''
       (gapData\<lparr>spine := [spineEntry ''ch1'' True ''ch1.xhtml'',
                           spineEntry ''ch2'' True ''ch2.xhtml'']\<rparr>)"
    by (simp only: 4)
  from t 3 obtain combined seps where s:
    "createCombinedHtml exampleLibrary ?files ''/t'' gapData = Inr combined"
    "length seps = length (appendedBodies exampleLibrary ?files (spine gapData))"
    "set seps \<subseteq> {[], pageBreak}"
    "htmlText combined
     = cheerio_html exampleLibrary (map (fixImagePathsCombined exampleLibrary)
         (cheerio_load exampleLibrary
            (str_replace (htmlShell exampleLibrary gapData) ''</style>'' pageBreakCss
             @ concat (map2 (@) seps (appendedBodies exampleLibrary ?files (spine gapData)))
             @ ''</body></html>'')))"
    by blast
  from s(1) have "htmlText combined = textOf bookCombinedDoc"
    by (auto simp: gap_createCombinedHtml)
  with s(4) have "textOf bookCombinedDoc
           = cheerio_html exampleLibrary (map (fixImagePathsCombined exampleLibrary)
               (cheerio_load exampleLibrary
                  (str_replace (htmlShell exampleLibrary gapData) ''</style>'' pageBreakCss
                   @ concat (map2 (@) seps
                       [''<p>One</p><img src='' @ dq @ ''assets/a.png'' @ dq @ ''>'',
                        ''<p>Two</p>''])
                   @ ''</body></html>'')))"
    by (simp only: gap_bodies)
  moreover from s(2) have "length seps = 2"
    by (simp add: gap_bodies)
  ultimately show "\<exists>seps. length seps = 2 \<and> set seps \<subseteq> {[], pageBreak}
         \<and> textOf bookCombinedDoc
           = cheerio_html exampleLibrary (map (fixImagePathsCombined exampleLibrary)
               (cheerio_load exampleLibrary
                  (str_replace (htmlShell exampleLibrary gapData) ''</style>'' pageBreakCss
                   @ concat (map2 (@) seps
                       [''<p>One</p><img src='' @ dq @ ''assets/a.png'' @ dq @ ''>'',
                        ''<p>Two</p>''])
                   @ ''</body></html>'')))"
    using s(3) by blast
next
  let ?files = "packageFiles folderOpf folderEntries"
  have 1: "\<forall>f\<in>set (fontFiles folderData). existsSync ?files (m_path f)"
    by (simp add: folderData_def exampleData_def)
  have 2: "\<forall>f\<in>set (manifest folderData).
             str_startsWith (m_mediaType f) ''image/'' \<longrightarrow> existsSync ?files (m_path f)"
    by code_simp
  have 3: "\<exists>s\<in>set (spine folderData). s_linear s \<and> ?files (s_path s) = Some Directory"
    by code_simp
  from absent_and_nonlinear_items_skipped[OF 1 2, of exampleLibrary "''/t''"] 3
  show "createCombinedHtml exampleLibrary ?files ''/t'' folderData = Inl (SystemError ''EISDIR'')"
    by blast
qed

text \<open>
  Claim C6 as stated, for every content file that cannot be read, fails: a spine item
  whose path exists but is a directory (here the item with the empty \<open>href\<close>) is not
  passed over; reading it throws and the conversion fails.
\<close>

theorem absent_and_nonlinear_items_skipped_counterexample:
  "convert exampleLibrary defaultOptions (packageFiles folderOpf folderEntries) ''/e'' ''/t''
   = Inl (SystemError ''EISDIR'')"
  by code_simp

text \<open>
  Claim C1. When assembly succeeds, the text handed to the last pass over the images
  is the document shell (with the page-break rule added to its style element), then,
  for each linear spine item whose content file exists, in spine order and once for
  each, its body content, each preceded by a page-break marker or by nothing, then the
  closing tags. Nothing else is in the body: no content of a non-linear item or of an
  item without a file. The final document is this text parsed, passed over and
  serialised again.
\<close>

theorem linear_bodies_once_in_order:
  assumes "createCombinedHtml lib files tempDir epubData = Inr combined"
  shows "\<exists>seps. length seps = length (appendedBodies lib files (spine epubData))
           \<and> set seps \<subseteq> {[], pageBreak}
           \<and> htmlText combined
             = cheerio_html lib (map (fixImagePathsCombined lib) (cheerio_load lib
                 (str_replace (htmlShell lib epubData) ''</style>'' pageBreakCss
                  @ concat (map2 (@) seps (appendedBodies lib files (spine epubData)))
                  @ ''</body></html>'')))"
proof -
  from assms obtain h where
    h: "addContent lib files (spine epubData) (htmlShell lib epubData) = Inr h"
    and c: "htmlText combined
       = cheerio_html lib (map (fixImagePathsCombined lib) (cheerio_load lib (combinedHtml h)))"
    by (auto simp: createCombinedHtml_def Let_def split: sum.splits)
  from addContent_structure[OF h] obtain seps where seps:
    "length seps = length (appendedBodies lib files (spine epubData))"
    "set seps \<subseteq> {[], pageBreak}"
    "h = htmlShell lib epubData
         @ concat (map2 (@) seps (appendedBodies lib files (spine epubData)))"
    by blast
  from c seps(3) have "htmlText combined
             = cheerio_html lib (map (fixImagePathsCombined lib) (cheerio_load lib
                 (str_replace (htmlShell lib epubData) ''</style>'' pageBreakCss
                  @ concat (map2 (@) seps (appendedBodies lib files (spine epubData)))
                  @ ''</body></html>'')))"
    by (simp only: combinedHtml_body)
  with seps(1,2) show ?thesis by blast
qed

theorem linear_bodies_once_in_order_witness:
  "\<exists>seps. length seps = 2 \<and> set seps \<subseteq> {[], pageBreak}
     \<and> textOf bookCombinedDoc
       = cheerio_html exampleLibrary (map (fixImagePathsCombined exampleLibrary)
           (cheerio_load exampleLibrary
              (str_replace (htmlShell exampleLibrary bookData) ''</style>'' pageBreakCss
               @ concat (map2 (@) seps
                   [''<p>One</p><img src='' @ dq @ ''assets/a.png'' @ dq @ ''>'', ''<p>Two</p>''])
               @ ''</body></html>'')))"
proof -
  from linear_bodies_once_in_order[OF book_createCombinedHtml] obtain seps where
    s: "length seps
        = length (appendedBodies exampleLibrary (packageFiles bookOpf bookEntries) (spine bookData))"
       "set seps \<subseteq> {[], pageBreak}"
       "htmlText \<lparr> htmlPath = ''/t/combined.html'', htmlText = textOf bookCombinedDoc,
                    copied = [(''/e/OEBPS/images/a.png'', ''/t/assets/a.png'')] \<rparr>
        = cheerio_html exampleLibrary (map (fixImagePathsCombined exampleLibrary)
            (cheerio_load exampleLibrary
               (str_replace (htmlShell exampleLibrary bookData) ''</style>'' pageBreakCss
                @ concat (map2 (@) seps
                    (appendedBodies exampleLibrary (packageFiles bookOpf bookEntries)
                       (spine bookData)))
                @ ''</body></html>'')))"
    by blast
  from s(1) have "length seps = 2"
    by (simp add: book_bodies)
  moreover from s(3) have "textOf bookCombinedDoc
       = cheerio_html exampleLibrary (map (fixImagePathsCombined exampleLibrary)
           (cheerio_load exampleLibrary
              (str_replace (htmlShell exampleLibrary bookData) ''</style>'' pageBreakCss
               @ concat (map2 (@) seps
                   [''<p>One</p><img src='' @ dq @ ''assets/a.png'' @ dq @ ''>'', ''<p>Two</p>''])
               @ ''</body></html>'')))"
    by (simp only: book_bodies CombinedHtml.select_convs)
  ultimately show ?thesis
    using s(2) by blast
qed

text \<open>
  Claim C4 fails on the code. In the scenario of the claim (chapter one, notes marked
  \<open>linear="no"\<close>, chapter two), with chapters whose bodies hold no \<open>section\<close> element, the
  loop appends the body of chapter two directly after the body of chapter one: no
  page-break marker stands between them. The loop inserts the marker only when the
  text so far contains \<open></section>\<close>.
\<close>

theorem scenario_without_page_break:
  "addContent exampleLibrary (packageFiles bookOpf bookEntries) (spine bookData)
     (htmlShell exampleLibrary bookData)
   = Inr (htmlShell exampleLibrary bookData
          @ ''<p>One</p><img src='' @ dq @ ''assets/a.png'' @ dq @ ''><p>Two</p>'')"
  by code_simp

lemma copyAsset_independent:
  "map_sum id (\<lambda>_. ()) (map_throwing (copyAsset lib files a) xs)
   = map_sum id (\<lambda>_. ()) (map_throwing (copyAsset lib files b) xs)"
  by (induction xs) (auto simp: copyAsset_def copy_def split: sum.splits)

text \<open>
  Claim C8. The document text depends on the package model, the files and the
  libraries only: the one input that differs between two runs on an unchanged package,
  the fresh temporary directory, has no influence on the text of the document, nor on
  whether assembly fails and with which error.
\<close>

theorem html_independent_of_temp_directory:
  "map_sum id htmlText (createCombinedHtml lib files tempDir1 epubData)
   = map_sum id htmlText (createCombinedHtml lib files tempDir2 epubData)"
proof -
  let ?images = "filter (\<lambda>item. str_startsWith (m_mediaType item) ''image/'') (manifest epubData)"
  let ?a = "path_join lib [tempDir1, ''assets'']" and ?b = "path_join lib [tempDir2, ''assets'']"
  from copyAsset_independent[of lib files ?a "fontFiles epubData" ?b]
       copyAsset_independent[of lib files ?a ?images ?b]
  show ?thesis
    by (cases "map_throwing (copyAsset lib files ?a) (fontFiles epubData)";
        cases "map_throwing (copyAsset lib files ?b) (fontFiles epubData)";
        cases "map_throwing (copyAsset lib files ?a) ?images";
        cases "map_throwing (copyAsset lib files ?b) ?images")
       (auto simp: createCombinedHtml_def Let_def split: sum.splits)
qed

end
